theory Spec2Isabelle
  imports Complex_Main
begin

section \<open>JavaScript values used by the match service\<close>

text \<open>
  The second module of \<^verbatim>\<open>MatchOutcomeModal.jsx\<close> (from \<^verbatim>\<open>import supabase\<close> on) holds
  the match request lifecycle and the outcome rule engine. Its functions are embedded
  here one by one, under the names they have in the source.

  A JavaScript string is represented by its UTF-8 bytes, so a literal such as
  \<^verbatim>\<open>"male"\<close> is the HOL string \<open>''male''\<close>. A value that may be \<^verbatim>\<open>null\<close> or
  \<^verbatim>\<open>undefined\<close> (an optional argument, a nullable column) is an \<open>option\<close>.
\<close>

type_synonym ident = string
type_synonym timestamp = nat

text \<open>\<^verbatim>\<open>!x\<close> for a value that is a string, \<^verbatim>\<open>null\<close> or \<^verbatim>\<open>undefined\<close>.\<close>

definition falsy :: "string option \<Rightarrow> bool" where
  "falsy x = (case x of None \<Rightarrow> True | Some s \<Rightarrow> s = [])"

text \<open>\<^verbatim>\<open>String(x)\<close> for a string or a \<^verbatim>\<open>null\<close> column.\<close>

definition String_of :: "string option \<Rightarrow> string" where
  "String_of x = (case x of None \<Rightarrow> ''null'' | Some s \<Rightarrow> s)"

text \<open>
  \<^verbatim>\<open>toLowerCase\<close>: the letters A to Z are mapped to a to z. JavaScript also lowers
  letters outside ASCII; none of them becomes an ASCII letter of \<^verbatim>\<open>"male"\<close> or
  \<^verbatim>\<open>"female"\<close>, so the comparisons of the source with these two literals come out
  the same.
\<close>

definition lower_char :: "char \<Rightarrow> char" where
  "lower_char c =
     (case map_of (zip ''ABCDEFGHIJKLMNOPQRSTUVWXYZ'' ''abcdefghijklmnopqrstuvwxyz'') c of
        None \<Rightarrow> c
      | Some l \<Rightarrow> l)"

definition toLowerCase :: "string \<Rightarrow> string" where
  "toLowerCase s = map lower_char s"

text \<open>
  \<^verbatim>\<open>trim\<close> removes white space and line terminators from both ends. The list holds
  the UTF-8 encodings of the code points ECMAScript counts as such: U+0009 to U+000D,
  U+0020, U+00A0, U+1680, U+2000 to U+200A, U+2028, U+2029, U+202F, U+205F, U+3000 and
  U+FEFF.
\<close>

definition whitespace :: "string list" where
  "whitespace =
     [[CHR 0x09], [CHR 0x0A], [CHR 0x0B], [CHR 0x0C], [CHR 0x0D], [CHR 0x20],
      [CHR 0xC2, CHR 0xA0], [CHR 0xE1, CHR 0x9A, CHR 0x80],
      [CHR 0xE2, CHR 0x80, CHR 0x80], [CHR 0xE2, CHR 0x80, CHR 0x81],
      [CHR 0xE2, CHR 0x80, CHR 0x82], [CHR 0xE2, CHR 0x80, CHR 0x83],
      [CHR 0xE2, CHR 0x80, CHR 0x84], [CHR 0xE2, CHR 0x80, CHR 0x85],
      [CHR 0xE2, CHR 0x80, CHR 0x86], [CHR 0xE2, CHR 0x80, CHR 0x87],
      [CHR 0xE2, CHR 0x80, CHR 0x88], [CHR 0xE2, CHR 0x80, CHR 0x89],
      [CHR 0xE2, CHR 0x80, CHR 0x8A],
      [CHR 0xE2, CHR 0x80, CHR 0xA8], [CHR 0xE2, CHR 0x80, CHR 0xA9],
      [CHR 0xE2, CHR 0x80, CHR 0xAF],
      [CHR 0xE2, CHR 0x81, CHR 0x9F], [CHR 0xE3, CHR 0x80, CHR 0x80],
      [CHR 0xEF, CHR 0xBB, CHR 0xBF]]"

definition starts_with :: "string \<Rightarrow> string \<Rightarrow> bool" where
  "starts_with s p = (p \<noteq> [] \<and> take (length p) s = p)"

function strip_leading :: "string list \<Rightarrow> string \<Rightarrow> string" where
  "strip_leading ps s =
     (case find (starts_with s) ps of
        None \<Rightarrow> s
      | Some p \<Rightarrow> strip_leading ps (drop (length p) s))"
  by pat_completeness auto
termination
proof (relation "measure (\<lambda>(ps, s). length s)")
  show "wf (measure (\<lambda>(ps, s). length s))" by simp
next
  fix ps :: "string list" and s p :: string
  assume "find (starts_with s) ps = Some p"
  then have "starts_with s p"
    by (auto simp: find_Some_iff)
  then have ne: "p \<noteq> []" and tk: "take (length p) s = p"
    by (simp_all add: starts_with_def)
  from ne have pos: "0 < length p"
    by simp
  from tk have "length (take (length p) s) = length p"
    by simp
  then have le: "length p \<le> length s"
    by simp
  from pos le have "length s - length p < length s"
    by arith
  then show "((ps, drop (length p) s), (ps, s)) \<in> measure (\<lambda>(ps, s). length s)"
    by simp
qed

definition trimStart :: "string \<Rightarrow> string" where
  "trimStart s = strip_leading whitespace s"

definition trimEnd :: "string \<Rightarrow> string" where
  "trimEnd s = rev (strip_leading (map rev whitespace) (rev s))"

definition trim :: "string \<Rightarrow> string" where
  "trim s = trimEnd (trimStart s)"

text \<open>
  A JavaScript number is a double: not-a-number, an infinity, or a finite value, here a
  rational (every finite double is one; the two zeros are not told apart).
\<close>

datatype jsnum = NaN | PosInf | NegInf | Fin rat

definition isFinite :: "jsnum \<Rightarrow> bool" where
  "isFinite n = (case n of Fin q \<Rightarrow> True | _ \<Rightarrow> False)"

text \<open>\<^verbatim>\<open>n < 1\<close>: false on \<^verbatim>\<open>NaN\<close>.\<close>

definition lt_one :: "jsnum \<Rightarrow> bool" where
  "lt_one n = (case n of NaN \<Rightarrow> False | PosInf \<Rightarrow> False | NegInf \<Rightarrow> True | Fin q \<Rightarrow> q < 1)"

datatype jsval = JUndefined | JNull | JBool bool | JNum jsnum | JStr string

text \<open>
  \<^verbatim>\<open>Number(v)\<close>. The conversion of a string (the StringToNumber grammar with its
  rounding to the nearest double) is a built-in of the language and is taken as the
  parameter \<open>parse\<close>; everything proved holds for every such function.
\<close>

definition Number_of :: "(string \<Rightarrow> jsnum) \<Rightarrow> jsval \<Rightarrow> jsnum" where
  "Number_of parse v =
     (case v of
        JUndefined \<Rightarrow> NaN
      | JNull \<Rightarrow> Fin 0
      | JBool b \<Rightarrow> (if b then Fin 1 else Fin 0)
      | JNum n \<Rightarrow> n
      | JStr s \<Rightarrow> parse s)"

section \<open>Rows and the storage collaborator\<close>

text \<open>
  The tables are lists of rows. A column is named by the first letter of its table and
  its name in the source (\<open>d_gender\<close> is \<^verbatim>\<open>dogs.gender\<close>). Of \<^verbatim>\<open>DOG_FIELDS\<close> only the
  columns a function of this module reads are kept; the name, breed, image and counters
  of a dog are carried through untouched by the source.
\<close>

record dog =
  d_id :: ident
  d_gender :: "string option"
  d_user_id :: "ident option"

record match_request =
  r_id :: ident
  r_status :: string
  r_contact_id :: "ident option"
  r_requester_user_id :: "ident option"
  r_requested_user_id :: "ident option"
  r_requester_dog_id :: "ident option"
  r_requested_dog_id :: "ident option"
  r_requested_at :: "timestamp option"
  r_accepted_at :: "timestamp option"
  r_declined_at :: "timestamp option"
  r_cancelled_at :: "timestamp option"
  r_awaiting_confirmation_at :: "timestamp option"
  r_completed_at :: "timestamp option"
  r_last_status_changed_at :: "timestamp option"
  r_requester_notes :: "string option"
  r_responder_notes :: "string option"

record match_outcome =
  o_id :: ident
  o_match_id :: "ident option"
  o_outcome :: string
  o_litter_size :: "jsnum option"
  o_notes :: "string option"
  o_verified_at :: "timestamp option"
  o_verified_by_user_id :: "ident option"
  o_verified_by_dog_id :: "ident option"

text \<open>The user object of the authentication collaborator; only \<^verbatim>\<open>user.id\<close> is read.\<close>

record user =
  u_id :: "ident option"

text \<open>
  A call of the storage client answers \<^verbatim>\<open>{ data, error }\<close>. What makes a call fail
  (transport, row-level security, a constraint of the schema) is outside this module:
  the world says, per call site, whether the collaborator reports an error. The world
  also holds the session, the tables, the clock read by \<^verbatim>\<open>new Date()\<close> and by the
  tables, the supply of row ids, and the language's conversion of strings to numbers.
\<close>

datatype storage_error = NotOneRow | Failure string

type_synonym 'a response = "'a option \<times> storage_error option"

datatype call =
  AuthGetUser | SelectDogOwner | SelectActive | InsertRequest | UpdateRequest
  | SelectDog | SelectMatch | InsertOutcome

record world =
  session_user :: "user option"
  tbl_dogs :: "dog list"
  tbl_dog_match_requests :: "match_request list"
  tbl_dog_match_outcomes :: "match_outcome list"
  failure :: "call \<Rightarrow> storage_error option"
  clock :: timestamp
  id_of :: "nat \<Rightarrow> ident"
  serial :: nat
  StringToNumber :: "string \<Rightarrow> jsnum"

text \<open>\<^verbatim>\<open>.single()\<close> wants exactly one row, \<^verbatim>\<open>.maybeSingle()\<close> at most one.\<close>

definition single :: "'a list \<Rightarrow> 'a response" where
  "single rows = (case rows of [x] \<Rightarrow> (Some x, None) | _ \<Rightarrow> (None, Some NotOneRow))"

definition maybeSingle :: "'a list \<Rightarrow> 'a response" where
  "maybeSingle rows =
     (case rows of [] \<Rightarrow> (None, None) | [x] \<Rightarrow> (Some x, None) | _ \<Rightarrow> (None, Some NotOneRow))"

text \<open>\<^verbatim>\<open>supabase.auth.getUser()\<close>.\<close>

definition auth_getUser :: "world \<Rightarrow> user response" where
  "auth_getUser w =
     (case failure w AuthGetUser of
        Some e \<Rightarrow> (None, Some e)
      | None \<Rightarrow> (session_user w, None))"

text \<open>
  \<^verbatim>\<open>from("dogs").select("id, user_id, gender").eq("id", verifiedDogId).single()\<close>.
\<close>

definition select_dog :: "world \<Rightarrow> string option \<Rightarrow> dog response" where
  "select_dog w dogId =
     (case failure w SelectDog of
        Some e \<Rightarrow> (None, Some e)
      | None \<Rightarrow> single (filter (\<lambda>d. d_id d = String_of dogId) (tbl_dogs w)))"

text \<open>
  \<^verbatim>\<open>from("dog_match_requests").select("id, requester_dog_id, requested_dog_id, status")\<close>
  \<^verbatim>\<open>.eq("id", matchId).single()\<close>.
\<close>

definition select_match :: "world \<Rightarrow> string option \<Rightarrow> match_request response" where
  "select_match w matchId =
     (case failure w SelectMatch of
        Some e \<Rightarrow> (None, Some e)
      | None \<Rightarrow> single (filter (\<lambda>r. r_id r = String_of matchId) (tbl_dog_match_requests w)))"

text \<open>
  The payload of the insert into \<^verbatim>\<open>dog_match_outcomes\<close>, and the insert with
  \<^verbatim>\<open>.select().single()\<close>. The new row holds the payload; its id and \<open>verified_at\<close> are
  not in the payload and are given by the table.
\<close>

record outcome_payload =
  p_match_id :: "ident option"
  p_verified_by_user_id :: "ident option"
  p_verified_by_dog_id :: "ident option"
  p_outcome :: string
  p_litter_size :: "jsnum option"
  p_notes :: "string option"

definition outcome_row :: "world \<Rightarrow> outcome_payload \<Rightarrow> match_outcome" where
  "outcome_row w p =
     \<lparr> o_id = id_of w (serial w),
       o_match_id = p_match_id p,
       o_outcome = p_outcome p,
       o_litter_size = p_litter_size p,
       o_notes = p_notes p,
       o_verified_at = Some (clock w),
       o_verified_by_user_id = p_verified_by_user_id p,
       o_verified_by_dog_id = p_verified_by_dog_id p \<rparr>"

definition insert_outcome :: "world \<Rightarrow> outcome_payload \<Rightarrow> match_outcome response \<times> world" where
  "insert_outcome w p =
     (case failure w InsertOutcome of
        Some e \<Rightarrow> ((None, Some e), w)
      | None \<Rightarrow>
          ((Some (outcome_row w p), None),
           w\<lparr> tbl_dog_match_outcomes := tbl_dog_match_outcomes w @ [outcome_row w p],
              serial := Suc (serial w) \<rparr>))"

section \<open>Errors\<close>

text \<open>
  Every \<^verbatim>\<open>throw new Error(message)\<close> of the source is \<open>Error message\<close>; the error of
  \<^verbatim>\<open>createMatchRequest\<close> that also carries \<^verbatim>\<open>code\<close> and \<^verbatim>\<open>activeRequest\<close> is
  \<open>CodedError message code activeRequest\<close>; an error of a collaborator, thrown on
  unchanged, is \<open>Thrown\<close>.
\<close>

record active_request =
  a_id :: ident
  a_status :: string
  a_requester_dog_id :: "ident option"
  a_requested_dog_id :: "ident option"
  a_requested_at :: "timestamp option"

datatype error =
  Error string
  | CodedError string string active_request
  | Thrown storage_error

section \<open>The outcome rule engine\<close>

text \<open>Step 3 of \<^verbatim>\<open>submitMatchOutcome\<close>: the permission by the gender of the verifying dog.\<close>

definition gender_gate :: "dog \<Rightarrow> string \<Rightarrow> error option" where
  "gender_gate dog outcome =
     (let dogGender = toLowerCase (case d_gender dog of None \<Rightarrow> [] | Some g \<Rightarrow> g)
      in if dogGender = ''male'' \<and> outcome \<noteq> ''no_show''
         then Some (Error ''Male dog's owner may only submit the 'Didn't show up' outcome'')
         else None)"

text \<open>
  Step 4 of \<^verbatim>\<open>submitMatchOutcome\<close>: the litter size and the trimmed notes by outcome.
  The result is the pair of \<^verbatim>\<open>finalLitterSize\<close> and \<^verbatim>\<open>trimmedNotes\<close>.
\<close>

definition normalize_outcome :: "(string \<Rightarrow> jsnum) \<Rightarrow> string \<Rightarrow> jsval \<Rightarrow> string option
    \<Rightarrow> error + (jsnum option \<times> string)" where
  "normalize_outcome parse outcome litterSize notes =
     (let trimmedNotes = trim (case notes of None \<Rightarrow> [] | Some s \<Rightarrow> s)
      in if outcome = ''success'' then
           (let n = Number_of parse litterSize
            in if \<not> isFinite n \<or> lt_one n
               then Inl (Error ''For success, litter size must be at least 1'')
               else if trimmedNotes = []
               then Inl (Error ''Notes are required for successful breeding'')
               else Inr (Some n, trimmedNotes))
         else if outcome = ''failed'' then Inr (Some (Fin 0), trimmedNotes)
         else if outcome = ''no_show'' then
           (if trimmedNotes = []
            then Inl (Error ''Notes are required for no show outcome'')
            else Inr (Some (Fin 0), trimmedNotes))
         else Inr (None, trimmedNotes))"

text \<open>The payload \<^verbatim>\<open>submitMatchOutcome\<close> sends once steps 3 and 4 have passed.\<close>

definition submitted :: "string option \<Rightarrow> string \<Rightarrow> string option \<Rightarrow> user
    \<Rightarrow> jsnum option \<Rightarrow> string \<Rightarrow> outcome_payload" where
  "submitted matchId outcome verifiedDogId user finalLitterSize trimmedNotes =
     \<lparr> p_match_id = matchId,
       p_verified_by_user_id = u_id user,
       p_verified_by_dog_id = verifiedDogId,
       p_outcome = outcome,
       p_litter_size = finalLitterSize,
       p_notes = (if trimmedNotes = [] then None else Some trimmedNotes) \<rparr>"

text \<open>
  The rest of \<^verbatim>\<open>submitMatchOutcome\<close> after step 3: step 4, the payload and the insert.
\<close>

definition normalize_and_insert :: "world \<Rightarrow> string option \<Rightarrow> string \<Rightarrow> string option
    \<Rightarrow> user \<Rightarrow> jsval \<Rightarrow> string option \<Rightarrow> (error + match_outcome option) \<times> world" where
  "normalize_and_insert w matchId outcome verifiedDogId user litterSize notes =
     (case normalize_outcome (StringToNumber w) outcome litterSize notes of
        Inl e \<Rightarrow> (Inl e, w)
      | Inr (finalLitterSize, trimmedNotes) \<Rightarrow>
         (case insert_outcome w
                 (submitted matchId outcome verifiedDogId user finalLitterSize trimmedNotes) of
            ((_, Some insertError), w') \<Rightarrow> (Inl (Thrown insertError), w')
          | ((data, None), w') \<Rightarrow> (Inr data, w')))"

text \<open>
  \<^verbatim>\<open>submitMatchOutcome({ matchId, outcome, verifiedDogId, litterSize, notes })\<close>. The
  result is the thrown error or the returned \<^verbatim>\<open>data\<close>, with the world after the call.
  The arguments are the values after the defaults of the parameter list: a \<^verbatim>\<open>litterSize\<close>
  left out arrives as \<^verbatim>\<open>null\<close>, and so do notes left out.
\<close>

definition submitMatchOutcome :: "world \<Rightarrow> string option \<Rightarrow> string
    \<Rightarrow> string option \<Rightarrow> jsval \<Rightarrow> string option
    \<Rightarrow> (error + match_outcome option) \<times> world" where
  "submitMatchOutcome w matchId outcome verifiedDogId litterSize notes =
     (if falsy matchId then (Inl (Error ''matchId is required''), w)
      else if falsy verifiedDogId then (Inl (Error ''verifiedDogId is required''), w)
      else if outcome \<notin> set [''success'', ''failed'', ''no_show'']
        then (Inl (Error ''Invalid outcome''), w)
      else
       (case auth_getUser w of
          (_, Some err) \<Rightarrow> (Inl (Thrown err), w)
        | (None, None) \<Rightarrow> (Inl (Error ''Not authenticated''), w)
        | (Some user, None) \<Rightarrow>
          (if falsy (u_id user) then (Inl (Error ''Not authenticated''), w)
           else
            (case select_dog w verifiedDogId of
               (_, Some dogErr) \<Rightarrow> (Inl (Thrown dogErr), w)
             | (None, None) \<Rightarrow> (Inl (Error ''Dog not found''), w)
             | (Some dog, None) \<Rightarrow>
               (if String_of (d_user_id dog) \<noteq> String_of (u_id user)
                then (Inl (Error ''You can only submit outcomes for your own dog''), w)
                else
                 (case select_match w matchId of
                    (_, Some matchErr) \<Rightarrow> (Inl (Thrown matchErr), w)
                  | (None, None) \<Rightarrow> (Inl (Error ''Match not found''), w)
                  | (Some match, None) \<Rightarrow>
                    (if String_of (r_requester_dog_id match) \<noteq> String_of verifiedDogId
                        \<and> String_of (r_requested_dog_id match) \<noteq> String_of verifiedDogId
                     then (Inl (Error ''Selected dog is not part of this match''), w)
                     else
                      (case gender_gate dog outcome of
                         Some e \<Rightarrow> (Inl e, w)
                       | None \<Rightarrow>
                           normalize_and_insert w matchId outcome verifiedDogId user
                             litterSize notes))))))))"

section \<open>The match request lifecycle\<close>

definition STATUS_SET :: "string set" where
  "STATUS_SET = set [''pending'', ''accepted'', ''declined'', ''cancelled'',
     ''awaiting_confirmation'', ''completed_success'', ''completed_failed'']"

definition ACTIVE_STATUS_LIST :: "string list" where
  "ACTIVE_STATUS_LIST = [''pending'', ''accepted'', ''awaiting_confirmation'']"

definition ACTIVE_REQUEST_STATUSES :: "string set" where
  "ACTIVE_REQUEST_STATUSES = set ACTIVE_STATUS_LIST"

subsection \<open>\<^verbatim>\<open>lookupDogOwnerId\<close>\<close>

text \<open>\<^verbatim>\<open>from("dogs").select("user_id").eq("id", dogId).maybeSingle()\<close>.\<close>

definition select_dog_owner :: "world \<Rightarrow> string option \<Rightarrow> dog response" where
  "select_dog_owner w dogId =
     (case failure w SelectDogOwner of
        Some e \<Rightarrow> (None, Some e)
      | None \<Rightarrow> maybeSingle (filter (\<lambda>d. d_id d = String_of dogId) (tbl_dogs w)))"

definition lookupDogOwnerId :: "world \<Rightarrow> string option \<Rightarrow> error + ident option" where
  "lookupDogOwnerId w dogId =
     (if falsy dogId then Inr None
      else
       (case select_dog_owner w dogId of
          (_, Some err) \<Rightarrow> Inl (Thrown err)
        | (None, None) \<Rightarrow> Inr None
        | (Some data, None) \<Rightarrow> Inr (if falsy (d_user_id data) then None else d_user_id data)))"

subsection \<open>\<^verbatim>\<open>getActiveRequestForContact\<close>\<close>

text \<open>
  \<^verbatim>\<open>.order("requested_at", { ascending: false })\<close>: newest first, rows without a
  timestamp before the others (the order of the database on a descending column), rows
  of one timestamp in table order.
\<close>

definition newer_eq :: "timestamp option \<Rightarrow> timestamp option \<Rightarrow> bool" where
  "newer_eq a b =
     (case a of None \<Rightarrow> True | Some x \<Rightarrow> (case b of None \<Rightarrow> False | Some y \<Rightarrow> y \<le> x))"

fun insert_desc :: "match_request \<Rightarrow> match_request list \<Rightarrow> match_request list" where
  "insert_desc r [] = [r]"
| "insert_desc r (x # xs) =
     (if newer_eq (r_requested_at r) (r_requested_at x) then r # x # xs
      else x # insert_desc r xs)"

definition order_desc :: "match_request list \<Rightarrow> match_request list" where
  "order_desc rows = foldr insert_desc rows []"

text \<open>The columns \<^verbatim>\<open>id, status, requester_dog_id, requested_dog_id, requested_at\<close>.\<close>

definition active_columns :: "match_request \<Rightarrow> active_request" where
  "active_columns r =
     \<lparr> a_id = r_id r,
       a_status = r_status r,
       a_requester_dog_id = r_requester_dog_id r,
       a_requested_dog_id = r_requested_dog_id r,
       a_requested_at = r_requested_at r \<rparr>"

definition select_active :: "world \<Rightarrow> string option \<Rightarrow> active_request list response" where
  "select_active w contactId =
     (case failure w SelectActive of
        Some e \<Rightarrow> (None, Some e)
      | None \<Rightarrow>
          (Some (map active_columns (take 1 (order_desc
             (filter (\<lambda>r. r_contact_id r = Some (String_of contactId)
                          \<and> r_status r \<in> set ACTIVE_STATUS_LIST)
                (tbl_dog_match_requests w))))),
           None))"

definition getActiveRequestForContact :: "world \<Rightarrow> string option
    \<Rightarrow> error + active_request option" where
  "getActiveRequestForContact w contactId =
     (if falsy contactId then Inr None
      else
       (case select_active w contactId of
          (_, Some err) \<Rightarrow> Inl (Thrown err)
        | (None, None) \<Rightarrow> Inr None
        | (Some data, None) \<Rightarrow> Inr (case data of [] \<Rightarrow> None | x # _ \<Rightarrow> Some x)))"

subsection \<open>\<^verbatim>\<open>createMatchRequest\<close>\<close>

text \<open>
  A row as \<^verbatim>\<open>MATCH_SELECT\<close> returns it: the columns of the request, the outcomes
  embedded under \<^verbatim>\<open>dog_match_outcomes\<close> (an array, an object or \<^verbatim>\<open>null\<close>) and the two
  dogs embedded under \<^verbatim>\<open>requester_dog\<close> and \<^verbatim>\<open>requested_dog\<close>.
\<close>

datatype embedded = Rows "match_outcome list" | Row match_outcome | NoRow

record match_record = match_request +
  dog_match_outcomes :: embedded
  requester_dog :: "dog option"
  requested_dog :: "dog option"

definition embed_dog :: "world \<Rightarrow> ident option \<Rightarrow> dog option" where
  "embed_dog w dogId = find (\<lambda>d. Some (d_id d) = dogId) (tbl_dogs w)"

definition MATCH_SELECT :: "world \<Rightarrow> match_request \<Rightarrow> match_record" where
  "MATCH_SELECT w r =
     match_request.extend r
       (match_record.fields
          (Rows (filter (\<lambda>out. o_match_id out = Some (r_id r)) (tbl_dog_match_outcomes w)))
          (embed_dog w (r_requester_dog_id r))
          (embed_dog w (r_requested_dog_id r)))"

record request_payload =
  p_contact_id :: "ident option"
  p_requester_dog_id :: "ident option"
  p_requested_dog_id :: "ident option"
  p_requester_user_id :: "ident option"
  p_requested_user_id :: "ident option"
  p_requester_notes :: "string option"

text \<open>
  Modelled from the spec: the defaults of the table \<^verbatim>\<open>dog_match_requests\<close>, whose
  schema is not part of the source. The payload of \<^verbatim>\<open>createMatchRequest\<close> names neither
  \<^verbatim>\<open>status\<close> nor \<^verbatim>\<open>requested_at\<close>; by the spec a new request is persisted ``in
  \<^verbatim>\<open>pending\<close> status with \<^verbatim>\<open>requestedAt\<close> set to current time'', and the other
  timestamps are set only by their transitions.
\<close>

definition request_row :: "world \<Rightarrow> request_payload \<Rightarrow> match_request" where
  "request_row w p =
     \<lparr> r_id = id_of w (serial w),
       r_status = ''pending'',
       r_contact_id = p_contact_id p,
       r_requester_user_id = p_requester_user_id p,
       r_requested_user_id = p_requested_user_id p,
       r_requester_dog_id = p_requester_dog_id p,
       r_requested_dog_id = p_requested_dog_id p,
       r_requested_at = Some (clock w),
       r_accepted_at = None,
       r_declined_at = None,
       r_cancelled_at = None,
       r_awaiting_confirmation_at = None,
       r_completed_at = None,
       r_last_status_changed_at = None,
       r_requester_notes = p_requester_notes p,
       r_responder_notes = None \<rparr>"

text \<open>\<^verbatim>\<open>from("dog_match_requests").insert([payload]).select(MATCH_SELECT).single()\<close>.\<close>

definition insert_request :: "world \<Rightarrow> request_payload \<Rightarrow> match_record response \<times> world" where
  "insert_request w p =
     (case failure w InsertRequest of
        Some e \<Rightarrow> ((None, Some e), w)
      | None \<Rightarrow>
          ((Some (MATCH_SELECT w (request_row w p)), None),
           w\<lparr> tbl_dog_match_requests := tbl_dog_match_requests w @ [request_row w p],
              serial := Suc (serial w) \<rparr>))"

text \<open>
  \<^verbatim>\<open>createMatchRequest({ contactId, requesterDogId, requestedDogId, requesterUserId,\<close>
  \<^verbatim>\<open>requestedUserId, notes })\<close>, the last two \<^verbatim>\<open>null\<close> when left out.
\<close>

definition createMatchRequest :: "world \<Rightarrow> string option \<Rightarrow> string option \<Rightarrow> string option
    \<Rightarrow> string option \<Rightarrow> string option \<Rightarrow> string option
    \<Rightarrow> (error + match_record option) \<times> world" where
  "createMatchRequest w contactId requesterDogId requestedDogId requesterUserId
       requestedUserId notes =
     (if falsy contactId then (Inl (Error ''contactId is required''), w)
      else if falsy requesterDogId \<or> falsy requestedDogId
        then (Inl (Error ''Both dogs must be provided to request breeding''), w)
      else if falsy requesterUserId then (Inl (Error ''requesterUserId is required''), w)
      else if requesterDogId = requestedDogId then (Inl (Error ''Dogs must be different''), w)
      else
       (case getActiveRequestForContact w contactId of
          Inl e \<Rightarrow> (Inl e, w)
        | Inr active \<Rightarrow>
          (case (case active of
                   None \<Rightarrow> None
                 | Some a \<Rightarrow> if a_status a \<in> ACTIVE_REQUEST_STATUSES then Some a else None) of
             Some a \<Rightarrow>
               (Inl (CodedError
                  ''A breeding request is already awaiting a response in this chat.''
                  ''MATCH_REQUEST_EXISTS'' a), w)
           | None \<Rightarrow>
            (case (if falsy requestedUserId then lookupDogOwnerId w requestedDogId
                   else Inr requestedUserId) of
               Inl e \<Rightarrow> (Inl e, w)
             | Inr targetUserId \<Rightarrow>
               (if falsy targetUserId
                then (Inl (Error
                  ''Unable to determine the other owner. Please refresh and try again.''), w)
                else
                 (let payload =
                    \<lparr> p_contact_id = contactId,
                      p_requester_dog_id = requesterDogId,
                      p_requested_dog_id = requestedDogId,
                      p_requester_user_id = requesterUserId,
                      p_requested_user_id = targetUserId,
                      p_requester_notes = (if falsy notes then None else notes) \<rparr>
                  in (case insert_request w payload of
                        ((_, Some err), w') \<Rightarrow> (Inl (Thrown err), w')
                      | ((data, None), w') \<Rightarrow> (Inr data, w'))))))))"

subsection \<open>\<^verbatim>\<open>mapMatchRecord\<close>\<close>

text \<open>
  The view model: the row (\<^verbatim>\<open>...row\<close>) and the derived fields, each named \<open>v_\<close> and
  its name in the source.
\<close>

record match_view =
  v_row :: match_record
  v_myDog :: "dog option"
  v_partnerDog :: "dog option"
  v_iAmRequester :: bool
  v_awaitingMyOutcome :: bool
  v_isMaleDogOwner :: bool
  v_requiresResponse :: bool
  v_canCancel :: bool
  v_outcome :: "match_outcome option"
  v_userStatus :: string
  v_direction :: string
  v_isCompleted :: bool
  v_isHistory :: bool

definition mapMatchRecord :: "match_record option \<Rightarrow> string option \<Rightarrow> match_view option" where
  "mapMatchRecord row_opt userId =
     (case row_opt of
        None \<Rightarrow> None
      | Some row \<Rightarrow>
         (let requesterId = r_requester_user_id row;
              myselfIsRequester =
                (if falsy userId then False else String_of requesterId = String_of userId);
              myDog = (if myselfIsRequester then requester_dog row else requested_dog row);
              partnerDog = (if myselfIsRequester then requested_dog row else requester_dog row);
              myDogGender =
                toLowerCase
                  (case myDog of
                     None \<Rightarrow> []
                   | Some d \<Rightarrow> (case d_gender d of None \<Rightarrow> [] | Some g \<Rightarrow> g));
              awaitingMyOutcome =
                (r_status row = ''awaiting_confirmation''
                 \<and> (myDogGender = ''female'' \<or> myDogGender = ''male''));
              isMaleDogOwner = (myDogGender = ''male'');
              userStatus = r_status row;
              outcomeRel = dog_match_outcomes row;
              outcome =
                (case outcomeRel of
                   Rows outs \<Rightarrow> (case outs of [] \<Rightarrow> None | out # _ \<Rightarrow> Some out)
                 | Row out \<Rightarrow> Some out
                 | NoRow \<Rightarrow> None);
              isCompleted =
                (r_status row = ''completed_success'' \<or> r_status row = ''completed_failed'');
              isHistory =
                (isCompleted \<or> r_status row = ''declined'' \<or> r_status row = ''cancelled'');
              requiresResponse = (r_status row = ''pending'' \<and> \<not> myselfIsRequester);
              canCancel =
                (myselfIsRequester
                 \<and> (r_status row = ''pending''
                    \<or> r_status row = ''accepted''
                    \<or> r_status row = ''awaiting_confirmation''))
          in Some
              \<lparr> v_row = row,
                v_myDog = myDog,
                v_partnerDog = partnerDog,
                v_iAmRequester = myselfIsRequester,
                v_awaitingMyOutcome = awaitingMyOutcome,
                v_isMaleDogOwner = isMaleDogOwner,
                v_requiresResponse = requiresResponse,
                v_canCancel = canCancel,
                v_outcome = outcome,
                v_userStatus = userStatus,
                v_direction = (if myselfIsRequester then ''sent'' else ''received''),
                v_isCompleted = isCompleted,
                v_isHistory = isHistory \<rparr>))"

subsection \<open>\<^verbatim>\<open>updateMatchStatus\<close> and \<^verbatim>\<open>acceptMatchRequest\<close>\<close>

text \<open>
  A patch is the object passed to \<^verbatim>\<open>.update\<close>: column names with their new values, a
  text or an instant (\<^verbatim>\<open>new Date().toISOString()\<close>). \<open>patched\<close> writes the columns a
  patch of this module can name into a row and leaves the others.
\<close>

datatype colval = Text string | Time timestamp

type_synonym patch = "string \<rightharpoonup> colval"

definition patched_time :: "patch \<Rightarrow> string \<Rightarrow> timestamp option \<Rightarrow> timestamp option" where
  "patched_time p column old = (case p column of Some (Time t) \<Rightarrow> Some t | _ \<Rightarrow> old)"

definition patched :: "patch \<Rightarrow> match_request \<Rightarrow> match_request" where
  "patched p r =
     r\<lparr> r_status := (case p ''status'' of Some (Text s) \<Rightarrow> s | _ \<Rightarrow> r_status r),
        r_accepted_at := patched_time p ''accepted_at'' (r_accepted_at r),
        r_declined_at := patched_time p ''declined_at'' (r_declined_at r),
        r_cancelled_at := patched_time p ''cancelled_at'' (r_cancelled_at r),
        r_awaiting_confirmation_at :=
          patched_time p ''awaiting_confirmation_at'' (r_awaiting_confirmation_at r),
        r_completed_at := patched_time p ''completed_at'' (r_completed_at r),
        r_last_status_changed_at :=
          patched_time p ''last_status_changed_at'' (r_last_status_changed_at r) \<rparr>"

text \<open>
  \<^verbatim>\<open>from("dog_match_requests").update(patch).eq("id", matchId).select().single()\<close>: the
  rows with that id are patched; the answer is the one patched row, and an error when
  there is not exactly one.
\<close>

definition update_request :: "world \<Rightarrow> patch \<Rightarrow> string option
    \<Rightarrow> match_request response \<times> world" where
  "update_request w p matchId =
     (case failure w UpdateRequest of
        Some e \<Rightarrow> ((None, Some e), w)
      | None \<Rightarrow>
         (case filter (\<lambda>r. r_id r = String_of matchId) (tbl_dog_match_requests w) of
            [r] \<Rightarrow>
              ((Some (patched p r), None),
               w\<lparr> tbl_dog_match_requests :=
                    map (\<lambda>x. if r_id x = String_of matchId then patched p x else x)
                      (tbl_dog_match_requests w) \<rparr>)
          | _ \<Rightarrow> ((None, Some NotOneRow), w)))"

definition timestampFields :: "string \<rightharpoonup> string" where
  "timestampFields = map_of
     [(''accepted'', ''accepted_at''),
      (''declined'', ''declined_at''),
      (''cancelled'', ''cancelled_at''),
      (''awaiting_confirmation'', ''awaiting_confirmation_at'')]"

text \<open>The patch \<^verbatim>\<open>updateMatchStatus\<close> builds before it calls the storage.\<close>

definition status_patch :: "timestamp \<Rightarrow> string \<Rightarrow> patch" where
  "status_patch now status =
     (let patch0 = [''status'' \<mapsto> Text status];
          patch1 = (case timestampFields status of
                      Some tsField \<Rightarrow> patch0(tsField \<mapsto> Time now)
                    | None \<Rightarrow> patch0)
      in if status = ''completed_success'' \<or> status = ''completed_failed''
         then patch1(''completed_at'' \<mapsto> Time now)
         else patch1)"

definition updateMatchStatus :: "world \<Rightarrow> string option \<Rightarrow> string
    \<Rightarrow> (error + match_request option) \<times> world" where
  "updateMatchStatus w matchId status =
     (if falsy matchId then (Inl (Error ''matchId is required''), w)
      else if status \<notin> STATUS_SET then (Inl (Error ''Unsupported match status''), w)
      else
       (case update_request w (status_patch (clock w) status) matchId of
          ((_, Some err), w') \<Rightarrow> (Inl (Thrown err), w')
        | ((data, None), w') \<Rightarrow> (Inr data, w')))"

text \<open>The patch of \<^verbatim>\<open>acceptMatchRequest\<close>.\<close>

definition accept_patch :: "timestamp \<Rightarrow> patch" where
  "accept_patch now =
     [''status'' \<mapsto> Text ''awaiting_confirmation'',
      ''accepted_at'' \<mapsto> Time now,
      ''awaiting_confirmation_at'' \<mapsto> Time now,
      ''last_status_changed_at'' \<mapsto> Time now]"

definition acceptMatchRequest :: "world \<Rightarrow> string option
    \<Rightarrow> (error + match_request option) \<times> world" where
  "acceptMatchRequest w matchId =
     (if falsy matchId then (Inl (Error ''matchId is required''), w)
      else
       (case update_request w (accept_patch (clock w)) matchId of
          ((_, Some err), w') \<Rightarrow> (Inl (Thrown err), w')
        | ((data, None), w') \<Rightarrow> (Inr data, w')))"

section \<open>The vocabulary of the specification\<close>

text \<open>
  The specification names error kinds; the source throws plain errors that differ in
  their message. Each kind is the error the source throws at that place.
\<close>

definition ForbiddenOutcome :: error where
  "ForbiddenOutcome = Error ''Male dog's owner may only submit the 'Didn't show up' outcome''"

definition InvalidLitterSize :: error where
  "InvalidLitterSize = Error ''For success, litter size must be at least 1''"

definition NotesRequired :: "string \<Rightarrow> error" where
  "NotesRequired outcome =
     (if outcome = ''success'' then Error ''Notes are required for successful breeding''
      else Error ''Notes are required for no show outcome'')"

definition ConflictError :: "active_request \<Rightarrow> error" where
  "ConflictError active =
     CodedError ''A breeding request is already awaiting a response in this chat.''
       ''MATCH_REQUEST_EXISTS'' active"

definition UnsupportedStatus :: error where
  "UnsupportedStatus = Error ''Unsupported match status''"

text \<open>
  The preconditions 1 to 5 of \<^verbatim>\<open>submitOutcome\<close> hold: the arguments are present, the
  outcome is one of the three, the caller is authenticated as \<open>user\<close>, the verifying dog
  is the row \<open>dog\<close> and belongs to \<open>user\<close>, the match is the row \<open>match\<close> and the dog is
  one of its two dogs. These are the checks of the source before its step 3, each
  passed.
\<close>

definition preconditions :: "world \<Rightarrow> string option \<Rightarrow> string \<Rightarrow> string option
    \<Rightarrow> user \<Rightarrow> dog \<Rightarrow> match_request \<Rightarrow> bool" where
  "preconditions w matchId outcome verifiedDogId user dog match =
     (\<not> falsy matchId \<and> \<not> falsy verifiedDogId
      \<and> outcome \<in> set [''success'', ''failed'', ''no_show'']
      \<and> auth_getUser w = (Some user, None) \<and> \<not> falsy (u_id user)
      \<and> select_dog w verifiedDogId = (Some dog, None)
      \<and> String_of (d_user_id dog) = String_of (u_id user)
      \<and> select_match w matchId = (Some match, None)
      \<and> (String_of (r_requester_dog_id match) = String_of verifiedDogId
         \<or> String_of (r_requested_dog_id match) = String_of verifiedDogId))"

text \<open>
  A letter-case variant of \<^verbatim>\<open>male\<close>, in the words of the specification: four letters,
  each the letter of \<^verbatim>\<open>male\<close> at its place in either case.
\<close>

definition case_variant_of_male :: "string \<Rightarrow> bool" where
  "case_variant_of_male g =
     (case g of
        [a, b, c, d] \<Rightarrow>
          a \<in> set ''mM'' \<and> b \<in> set ''aA'' \<and> c \<in> set ''lL'' \<and> d \<in> set ''eE''
      | _ \<Rightarrow> False)"

text \<open>A non-negative integer, in the words of the specification's data model.\<close>

definition nonneg_integer :: "jsnum \<Rightarrow> bool" where
  "nonneg_integer n = (case n of Fin q \<Rightarrow> 0 \<le> q \<and> of_int \<lfloor>q\<rfloor> = q | _ \<Rightarrow> False)"

section \<open>A world to run the operations in\<close>

text \<open>
  Two owners with one dog each, a match between the dogs that awaits its outcome in the
  conversation \<open>c1\<close>, and a declined match from the conversation \<open>c2\<close>; no collaborator
  fails. The conversion of strings reads runs of decimal digits, which is all the runs
  below pass as text.
\<close>

definition digits :: "string \<Rightarrow> jsnum" where
  "digits s =
     (if s \<noteq> [] \<and> list_all (\<lambda>c. c \<in> set ''0123456789'') s
      then Fin (of_nat (foldl (\<lambda>n c. 10 * n + (of_char c - 48)) 0 s))
      else NaN)"

definition request_m1 :: match_request where
  "request_m1 =
     \<lparr> r_id = ''m1'',
       r_status = ''awaiting_confirmation'',
       r_contact_id = Some ''c1'',
       r_requester_user_id = Some ''owner-m'',
       r_requested_user_id = Some ''owner-f'',
       r_requester_dog_id = Some ''rex'',
       r_requested_dog_id = Some ''bella'',
       r_requested_at = Some 10,
       r_accepted_at = Some 20,
       r_declined_at = None,
       r_cancelled_at = None,
       r_awaiting_confirmation_at = Some 20,
       r_completed_at = None,
       r_last_status_changed_at = Some 20,
       r_requester_notes = None,
       r_responder_notes = None \<rparr>"

definition request_m2 :: match_request where
  "request_m2 =
     request_m1\<lparr> r_id := ''m2'', r_status := ''declined'', r_contact_id := Some ''c2'',
       r_accepted_at := None, r_declined_at := Some 30,
       r_awaiting_confirmation_at := None, r_last_status_changed_at := None \<rparr>"

definition bella :: dog where
  "bella = \<lparr> d_id = ''bella'', d_gender = Some ''female'', d_user_id = Some ''owner-f'' \<rparr>"

definition rex :: dog where
  "rex = \<lparr> d_id = ''rex'', d_gender = Some ''male'', d_user_id = Some ''owner-m'' \<rparr>"

definition row_ids :: "nat \<Rightarrow> ident" where
  "row_ids n = ''row-'' @ replicate n (CHR ''i'')"

definition no_failure :: "call \<Rightarrow> storage_error option" where
  "no_failure c = None"

definition kennel :: world where
  "kennel =
     \<lparr> session_user = Some \<lparr> u_id = Some ''owner-f'' \<rparr>,
       tbl_dogs = [bella, rex],
       tbl_dog_match_requests = [request_m1, request_m2],
       tbl_dog_match_outcomes = [],
       failure = no_failure,
       clock = 100,
       id_of = row_ids,
       serial = 0,
       StringToNumber = digits \<rparr>"

text \<open>The same world with the owner of the male dog signed in.\<close>

definition kennel_m :: world where
  "kennel_m = kennel\<lparr> session_user := Some \<lparr> u_id = Some ''owner-m'' \<rparr> \<rparr>"

section \<open>Facts about the embedded functions\<close>

subsection \<open>\<^verbatim>\<open>submitMatchOutcome\<close>: what happens once the checks have passed\<close>

lemma submit_after_checks:
  assumes "preconditions w matchId outcome verifiedDogId user dog match"
  shows "submitMatchOutcome w matchId outcome verifiedDogId litterSize notes =
     (case gender_gate dog outcome of
        Some e \<Rightarrow> (Inl e, w)
      | None \<Rightarrow> normalize_and_insert w matchId outcome verifiedDogId user litterSize notes)"
  using assms
  unfolding preconditions_def submitMatchOutcome_def
  by (auto split: option.splits)

lemma submit_success_checks:
  assumes "fst (submitMatchOutcome w matchId outcome verifiedDogId litterSize notes) = Inr data"
  shows "\<exists>user dog match. preconditions w matchId outcome verifiedDogId user dog match
           \<and> gender_gate dog outcome = None"
  using assms
  unfolding submitMatchOutcome_def preconditions_def
  by (auto split: if_splits option.splits prod.splits)

lemma insert_success:
  assumes "fst (normalize_and_insert w matchId outcome verifiedDogId user litterSize notes) = Inr data"
  shows "\<exists>l t. normalize_outcome (StringToNumber w) outcome litterSize notes = Inr (l, t)
           \<and> failure w InsertOutcome = None
           \<and> data = Some (outcome_row w (submitted matchId outcome verifiedDogId user l t))
           \<and> snd (normalize_and_insert w matchId outcome verifiedDogId user litterSize notes) =
               w\<lparr> tbl_dog_match_outcomes := tbl_dog_match_outcomes w
                     @ [outcome_row w (submitted matchId outcome verifiedDogId user l t)],
                  serial := Suc (serial w) \<rparr>"
  using assms
  unfolding normalize_and_insert_def insert_outcome_def
  by (auto split: sum.splits option.splits prod.splits)

lemma normalize_success:
  assumes "normalize_outcome parse outcome litterSize notes = Inr (l, t)"
  shows "t = trim (case notes of None \<Rightarrow> [] | Some s \<Rightarrow> s)"
    and "outcome = ''success'' \<Longrightarrow> l = Some (Number_of parse litterSize)
           \<and> (\<exists>q. Number_of parse litterSize = Fin q \<and> 1 \<le> q) \<and> t \<noteq> []"
    and "outcome = ''failed'' \<Longrightarrow> l = Some (Fin 0)"
    and "outcome = ''no_show'' \<Longrightarrow> l = Some (Fin 0) \<and> t \<noteq> []"
  using assms
  unfolding normalize_outcome_def Let_def isFinite_def lt_one_def
  by (auto split: if_splits jsnum.splits)

lemma submit_stored:
  assumes "fst (submitMatchOutcome w matchId outcome verifiedDogId litterSize notes) = Inr data"
  shows "\<exists>user l t.
           normalize_outcome (StringToNumber w) outcome litterSize notes = Inr (l, t)
           \<and> data = Some (outcome_row w (submitted matchId outcome verifiedDogId user l t))
           \<and> tbl_dog_match_outcomes
                (snd (submitMatchOutcome w matchId outcome verifiedDogId litterSize notes))
              = tbl_dog_match_outcomes w
                  @ [outcome_row w (submitted matchId outcome verifiedDogId user l t)]"
proof -
  from submit_success_checks [OF assms] obtain user dog match
    where pre: "preconditions w matchId outcome verifiedDogId user dog match"
      and gate: "gender_gate dog outcome = None"
    by blast
  from submit_after_checks [OF pre] gate
  have eq: "submitMatchOutcome w matchId outcome verifiedDogId litterSize notes
      = normalize_and_insert w matchId outcome verifiedDogId user litterSize notes"
    by simp
  with assms
  have "fst (normalize_and_insert w matchId outcome verifiedDogId user litterSize notes)
      = Inr data"
    by simp
  from insert_success [OF this] obtain l t
    where "normalize_outcome (StringToNumber w) outcome litterSize notes = Inr (l, t)"
      and "data = Some (outcome_row w (submitted matchId outcome verifiedDogId user l t))"
      and "snd (normalize_and_insert w matchId outcome verifiedDogId user litterSize notes) =
               w\<lparr> tbl_dog_match_outcomes := tbl_dog_match_outcomes w
                     @ [outcome_row w (submitted matchId outcome verifiedDogId user l t)],
                  serial := Suc (serial w) \<rparr>"
    by blast
  with eq show ?thesis
    by auto
qed

lemma stored_fields:
  "o_litter_size (outcome_row w (submitted matchId outcome verifiedDogId user l t)) = l"
  "o_notes (outcome_row w (submitted matchId outcome verifiedDogId user l t))
     = (if t = [] then None else Some t)"
  "o_outcome (outcome_row w (submitted matchId outcome verifiedDogId user l t)) = outcome"
  by (simp_all add: outcome_row_def submitted_def)

lemma succeeds_outcome:
  assumes "fst (submitMatchOutcome w matchId outcome verifiedDogId litterSize notes) = Inr data"
  shows "outcome = ''success'' \<or> outcome = ''failed'' \<or> outcome = ''no_show''"
  using submit_success_checks [OF assms]
  by (auto simp: preconditions_def)

subsection \<open>Lower case and the literal \<^verbatim>\<open>male\<close>\<close>

lemma lower_char_other:
  "c \<notin> set ''ABCDEFGHIJKLMNOPQRSTUVWXYZ'' \<Longrightarrow> lower_char c = c"
  by (simp add: lower_char_def)

lemma lower_char_m: "lower_char c = CHR ''m'' \<longleftrightarrow> c = CHR ''m'' \<or> c = CHR ''M''"
proof (cases "c \<in> set ''ABCDEFGHIJKLMNOPQRSTUVWXYZ''")
  case True
  then show ?thesis
    unfolding set_simps insert_iff empty_iff
    by (elim disjE; simp add: lower_char_def)
next
  case False
  then show ?thesis
    by (auto simp: lower_char_other)
qed

lemma lower_char_a: "lower_char c = CHR ''a'' \<longleftrightarrow> c = CHR ''a'' \<or> c = CHR ''A''"
proof (cases "c \<in> set ''ABCDEFGHIJKLMNOPQRSTUVWXYZ''")
  case True
  then show ?thesis
    unfolding set_simps insert_iff empty_iff
    by (elim disjE; simp add: lower_char_def)
next
  case False
  then show ?thesis
    by (auto simp: lower_char_other)
qed

lemma lower_char_l: "lower_char c = CHR ''l'' \<longleftrightarrow> c = CHR ''l'' \<or> c = CHR ''L''"
proof (cases "c \<in> set ''ABCDEFGHIJKLMNOPQRSTUVWXYZ''")
  case True
  then show ?thesis
    unfolding set_simps insert_iff empty_iff
    by (elim disjE; simp add: lower_char_def)
next
  case False
  then show ?thesis
    by (auto simp: lower_char_other)
qed

lemma lower_char_e: "lower_char c = CHR ''e'' \<longleftrightarrow> c = CHR ''e'' \<or> c = CHR ''E''"
proof (cases "c \<in> set ''ABCDEFGHIJKLMNOPQRSTUVWXYZ''")
  case True
  then show ?thesis
    unfolding set_simps insert_iff empty_iff
    by (elim disjE; simp add: lower_char_def)
next
  case False
  then show ?thesis
    by (auto simp: lower_char_other)
qed

lemma toLowerCase_male: "toLowerCase g = ''male'' \<longleftrightarrow> case_variant_of_male g"
proof
  assume "toLowerCase g = ''male''"
  then obtain a b c d where g: "g = [a, b, c, d]"
    and "lower_char a = CHR ''m''" "lower_char b = CHR ''a''"
    and "lower_char c = CHR ''l''" "lower_char d = CHR ''e''"
    unfolding toLowerCase_def by (auto simp: map_eq_Cons_conv)
  then show "case_variant_of_male g"
    by (simp add: case_variant_of_male_def lower_char_m lower_char_a lower_char_l lower_char_e)
next
  assume "case_variant_of_male g"
  then obtain a b c d where g: "g = [a, b, c, d]"
    and "a \<in> set ''mM''" "b \<in> set ''aA''" "c \<in> set ''lL''" "d \<in> set ''eE''"
    unfolding case_variant_of_male_def by (auto split: list.splits)
  then show "toLowerCase g = ''male''"
    by (simp add: toLowerCase_def lower_char_m lower_char_a lower_char_l lower_char_e)
qed

subsection \<open>The newest active request\<close>

lemma set_insert_desc: "set (insert_desc r xs) = insert r (set xs)"
  by (induction xs) auto

lemma set_order_desc: "set (order_desc rows) = set rows"
  unfolding order_desc_def
  by (induction rows) (auto simp: set_insert_desc)

lemma newer_eq_total: "newer_eq a b \<or> newer_eq b a"
  by (auto simp: newer_eq_def split: option.splits)

lemma newer_eq_trans: "newer_eq a b \<Longrightarrow> newer_eq b c \<Longrightarrow> newer_eq a c"
  by (auto simp: newer_eq_def split: option.splits)

lemma sorted_insert_desc:
  assumes "sorted_wrt (\<lambda>a b. newer_eq (r_requested_at a) (r_requested_at b)) xs"
  shows "sorted_wrt (\<lambda>a b. newer_eq (r_requested_at a) (r_requested_at b)) (insert_desc r xs)"
  using assms
proof (induction xs)
  case Nil
  then show ?case by simp
next
  case (Cons x xs)
  show ?case
  proof (cases "newer_eq (r_requested_at r) (r_requested_at x)")
    case True
    with Cons.prems show ?thesis
      by (auto intro: newer_eq_trans)
  next
    case False
    then have "newer_eq (r_requested_at x) (r_requested_at r)"
      using newer_eq_total by blast
    with False Cons show ?thesis
      by (auto simp: set_insert_desc)
  qed
qed

lemma sorted_order_desc:
  "sorted_wrt (\<lambda>a b. newer_eq (r_requested_at a) (r_requested_at b)) (order_desc rows)"
  unfolding order_desc_def
  by (induction rows) (auto intro: sorted_insert_desc)

lemma newer_eq_refl: "newer_eq a a"
  by (simp add: newer_eq_def split: option.splits)

lemma order_desc_head:
  assumes "r \<in> set rows"
  shows "\<exists>x xs. order_desc rows = x # xs \<and> x \<in> set rows
           \<and> (\<forall>y \<in> set rows. newer_eq (r_requested_at x) (r_requested_at y))"
proof -
  from assms have "order_desc rows \<noteq> []"
    using set_order_desc [of rows] by auto
  then obtain x xs where eq: "order_desc rows = x # xs"
    by (cases "order_desc rows") auto
  have "x \<in> set rows"
    using set_order_desc [of rows] eq by auto
  moreover have "\<forall>y \<in> set rows. newer_eq (r_requested_at x) (r_requested_at y)"
  proof
    fix y assume "y \<in> set rows"
    then have "y \<in> set (x # xs)"
      using set_order_desc [of rows] eq by simp
    with sorted_order_desc [of rows] eq show "newer_eq (r_requested_at x) (r_requested_at y)"
      by (auto simp: newer_eq_refl)
  qed
  ultimately show ?thesis
    using eq by blast
qed

subsection \<open>\<^verbatim>\<open>createMatchRequest\<close>: the conflict check\<close>

lemma active_found:
  assumes "r \<in> set (tbl_dog_match_requests w)"
    and "r_contact_id r = Some (String_of contactId)"
    and "r_status r \<in> set ACTIVE_STATUS_LIST"
    and "\<not> falsy contactId"
    and "failure w SelectActive = None"
  shows "\<exists>x. getActiveRequestForContact w contactId = Inr (Some (active_columns x))
           \<and> x \<in> set (tbl_dog_match_requests w)
           \<and> r_contact_id x = Some (String_of contactId)
           \<and> r_status x \<in> set ACTIVE_STATUS_LIST
           \<and> (\<forall>y \<in> set (tbl_dog_match_requests w).
                 r_contact_id y = Some (String_of contactId)
                 \<and> r_status y \<in> set ACTIVE_STATUS_LIST
                 \<longrightarrow> newer_eq (r_requested_at x) (r_requested_at y))"
proof -
  let ?rows = "filter (\<lambda>r. r_contact_id r = Some (String_of contactId)
                          \<and> r_status r \<in> set ACTIVE_STATUS_LIST)
                (tbl_dog_match_requests w)"
  from assms(1-3) have "r \<in> set ?rows"
    by simp
  from order_desc_head [OF this] obtain x xs
    where eq: "order_desc ?rows = x # xs"
      and x: "x \<in> set ?rows"
      and newest: "\<forall>y \<in> set ?rows. newer_eq (r_requested_at x) (r_requested_at y)"
    by blast
  from eq assms(4,5)
  have "getActiveRequestForContact w contactId = Inr (Some (active_columns x))"
    by (simp add: getActiveRequestForContact_def select_active_def)
  with x newest show ?thesis
    by (intro exI [of _ x]) auto
qed

lemma create_success_no_active:
  assumes "fst (createMatchRequest w contactId requesterDogId requestedDogId requesterUserId
      requestedUserId notes) = Inr data"
  shows "\<not> falsy contactId
    \<and> (\<exists>active. getActiveRequestForContact w contactId = Inr active
         \<and> (case active of None \<Rightarrow> True | Some a \<Rightarrow> a_status a \<notin> ACTIVE_REQUEST_STATUSES))"
  using assms
  unfolding createMatchRequest_def
  by (auto split: if_splits sum.splits option.splits)

lemma get_active_no_failure:
  assumes "getActiveRequestForContact w contactId = Inr active" and "\<not> falsy contactId"
  shows "failure w SelectActive = None"
  using assms
  unfolding getActiveRequestForContact_def select_active_def
  by (auto split: if_splits option.splits)

subsection \<open>\<^verbatim>\<open>createMatchRequest\<close>: the insert\<close>

lemma request_row_columns:
  "r_status (request_row w p) = ''pending''"
  "r_requested_at (request_row w p) = Some (clock w)"
  "r_contact_id (request_row w p) = p_contact_id p"
  "r_requester_dog_id (request_row w p) = p_requester_dog_id p"
  "r_requested_dog_id (request_row w p) = p_requested_dog_id p"
  "r_requester_user_id (request_row w p) = p_requester_user_id p"
  "r_requested_user_id (request_row w p) = p_requested_user_id p"
  by (simp_all add: request_row_def)

lemma create_success_row:
  assumes "fst (createMatchRequest w contactId requesterDogId requestedDogId requesterUserId
      requestedUserId notes) = Inr data"
  shows "\<exists>targetUserId.
           data = Some (MATCH_SELECT w (request_row w
             \<lparr> p_contact_id = contactId,
               p_requester_dog_id = requesterDogId,
               p_requested_dog_id = requestedDogId,
               p_requester_user_id = requesterUserId,
               p_requested_user_id = targetUserId,
               p_requester_notes = (if falsy notes then None else notes) \<rparr>))
           \<and> tbl_dog_match_requests (snd (createMatchRequest w contactId requesterDogId
                 requestedDogId requesterUserId requestedUserId notes))
               = tbl_dog_match_requests w @ [request_row w
             \<lparr> p_contact_id = contactId,
               p_requester_dog_id = requesterDogId,
               p_requested_dog_id = requestedDogId,
               p_requester_user_id = requesterUserId,
               p_requested_user_id = targetUserId,
               p_requester_notes = (if falsy notes then None else notes) \<rparr>]"
  using assms
  unfolding createMatchRequest_def insert_request_def Let_def
  by (auto split: if_splits sum.splits option.splits prod.splits)

subsection \<open>\<^verbatim>\<open>updateMatchStatus\<close> and \<^verbatim>\<open>acceptMatchRequest\<close>: the update\<close>

lemma update_request_success:
  assumes "update_request w p matchId = ((data, None), w')"
  shows "\<exists>r. filter (\<lambda>x. r_id x = String_of matchId) (tbl_dog_match_requests w) = [r]
           \<and> failure w UpdateRequest = None
           \<and> data = Some (patched p r)
           \<and> w' = w\<lparr> tbl_dog_match_requests :=
                    map (\<lambda>x. if r_id x = String_of matchId then patched p x else x)
                      (tbl_dog_match_requests w) \<rparr>"
  using assms
  unfolding update_request_def
  by (auto split: option.splits list.splits)

lemma filter_single_member:
  assumes "filter P xs = [r]"
  shows "r \<in> set xs \<and> P r"
proof -
  have "r \<in> set (filter P xs)"
    by (simp add: assms)
  then show ?thesis
    by simp
qed

lemma accept_patch_row:
  "patched (accept_patch now) r =
     r\<lparr> r_status := ''awaiting_confirmation'',
        r_accepted_at := Some now,
        r_awaiting_confirmation_at := Some now,
        r_last_status_changed_at := Some now \<rparr>"
  by (simp add: patched_def patched_time_def accept_patch_def)

lemma status_patch_row:
  "patched (status_patch now ''pending'') r = r\<lparr> r_status := ''pending'' \<rparr>"
  "patched (status_patch now ''accepted'') r =
     r\<lparr> r_status := ''accepted'', r_accepted_at := Some now \<rparr>"
  "patched (status_patch now ''declined'') r =
     r\<lparr> r_status := ''declined'', r_declined_at := Some now \<rparr>"
  "patched (status_patch now ''cancelled'') r =
     r\<lparr> r_status := ''cancelled'', r_cancelled_at := Some now \<rparr>"
  "patched (status_patch now ''awaiting_confirmation'') r =
     r\<lparr> r_status := ''awaiting_confirmation'', r_awaiting_confirmation_at := Some now \<rparr>"
  "patched (status_patch now ''completed_success'') r =
     r\<lparr> r_status := ''completed_success'', r_completed_at := Some now \<rparr>"
  "patched (status_patch now ''completed_failed'') r =
     r\<lparr> r_status := ''completed_failed'', r_completed_at := Some now \<rparr>"
  by (simp_all add: patched_def patched_time_def status_patch_def timestampFields_def)

lemma status_patch_keys:
  "dom (status_patch now ''pending'') = {''status''}"
  "dom (status_patch now ''accepted'') = {''status'', ''accepted_at''}"
  "dom (status_patch now ''declined'') = {''status'', ''declined_at''}"
  "dom (status_patch now ''cancelled'') = {''status'', ''cancelled_at''}"
  "dom (status_patch now ''awaiting_confirmation'')
     = {''status'', ''awaiting_confirmation_at''}"
  "dom (status_patch now ''completed_success'') = {''status'', ''completed_at''}"
  "dom (status_patch now ''completed_failed'') = {''status'', ''completed_at''}"
  by (auto simp: status_patch_def timestampFields_def)

section \<open>The claims about the outcome rule engine\<close>

text \<open>
  Claim C1 (role gate). Let \<open>dog\<close> be the verifying dog, the row the source reads for
  \<^verbatim>\<open>verifiedDogId\<close>. If its gender is \<^verbatim>\<open>male\<close>, a call of \<^verbatim>\<open>submitMatchOutcome\<close> that
  returns has the outcome \<^verbatim>\<open>no_show\<close>, and a call with the outcome \<^verbatim>\<open>success\<close> or
  \<^verbatim>\<open>failed\<close> that has passed the preconditions 1 to 5 throws ForbiddenOutcome and writes
  nothing. If its gender is \<^verbatim>\<open>female\<close>, a call that has passed the preconditions goes
  on to the normalization and the insert with every outcome: no restriction by gender
  is applied.
\<close>

theorem role_gate:
  assumes "select_dog w verifiedDogId = (Some dog, None)"
  shows "(d_gender dog = Some ''male'' \<longrightarrow>
            (fst (submitMatchOutcome w matchId outcome verifiedDogId litterSize notes) = Inr data
               \<longrightarrow> outcome = ''no_show'')
          \<and> (preconditions w matchId outcome verifiedDogId user dog match
               \<and> outcome \<in> set [''success'', ''failed'']
               \<longrightarrow> submitMatchOutcome w matchId outcome verifiedDogId litterSize notes
                     = (Inl ForbiddenOutcome, w)))
       \<and> (d_gender dog = Some ''female''
            \<and> preconditions w matchId outcome verifiedDogId user dog match
            \<longrightarrow> submitMatchOutcome w matchId outcome verifiedDogId litterSize notes
                  = normalize_and_insert w matchId outcome verifiedDogId user litterSize notes)"
proof (intro conjI impI)
  assume male: "d_gender dog = Some ''male''"
    and ok: "fst (submitMatchOutcome w matchId outcome verifiedDogId litterSize notes) = Inr data"
  from submit_success_checks [OF ok] obtain user' dog' match'
    where pre: "preconditions w matchId outcome verifiedDogId user' dog' match'"
      and gate: "gender_gate dog' outcome = None"
    by blast
  from pre assms have "dog' = dog"
    by (simp add: preconditions_def)
  with gate male show "outcome = ''no_show''"
    by (simp add: gender_gate_def toLowerCase_def lower_char_def split: if_splits)
next
  assume male: "d_gender dog = Some ''male''"
    and pre: "preconditions w matchId outcome verifiedDogId user dog match
               \<and> outcome \<in> set [''success'', ''failed'']"
  then have "gender_gate dog outcome = Some ForbiddenOutcome"
    by (auto simp: gender_gate_def ForbiddenOutcome_def toLowerCase_def lower_char_def)
  moreover from pre have "preconditions w matchId outcome verifiedDogId user dog match"
    by simp
  ultimately show "submitMatchOutcome w matchId outcome verifiedDogId litterSize notes
      = (Inl ForbiddenOutcome, w)"
    by (simp add: submit_after_checks)
next
  assume "d_gender dog = Some ''female''
            \<and> preconditions w matchId outcome verifiedDogId user dog match"
  then have "gender_gate dog outcome = None"
    and "preconditions w matchId outcome verifiedDogId user dog match"
    by (simp_all add: gender_gate_def toLowerCase_def lower_char_def)
  then show "submitMatchOutcome w matchId outcome verifiedDogId litterSize notes
      = normalize_and_insert w matchId outcome verifiedDogId user litterSize notes"
    by (simp add: submit_after_checks)
qed

theorem role_gate_witness:
  "select_dog kennel_m (Some ''rex'') = (Some rex, None)
   \<and> d_gender rex = Some ''male''
   \<and> preconditions kennel_m (Some ''m1'') ''success'' (Some ''rex'')
        \<lparr> u_id = Some ''owner-m'' \<rparr> rex request_m1
   \<and> ''success'' \<in> set [''success'', ''failed'']
   \<and> submitMatchOutcome kennel_m (Some ''m1'') ''success'' (Some ''rex'') (JStr ''4'')
        (Some ''went well'') = (Inl ForbiddenOutcome, kennel_m)
   \<and> fst (submitMatchOutcome kennel_m (Some ''m1'') ''no_show'' (Some ''rex'') JNull
        (Some ''she did not come'')) = Inr (Some
          \<lparr> o_id = ''row-'', o_match_id = Some ''m1'', o_outcome = ''no_show'',
            o_litter_size = Some (Fin 0), o_notes = Some ''she did not come'',
            o_verified_at = Some 100, o_verified_by_user_id = Some ''owner-m'',
            o_verified_by_dog_id = Some ''rex'' \<rparr>)
   \<and> select_dog kennel (Some ''bella'') = (Some bella, None)
   \<and> d_gender bella = Some ''female''
   \<and> preconditions kennel (Some ''m1'') ''success'' (Some ''bella'')
        \<lparr> u_id = Some ''owner-f'' \<rparr> bella request_m1
   \<and> submitMatchOutcome kennel (Some ''m1'') ''success'' (Some ''bella'') (JStr ''4'')
        (Some ''went well'')
      = normalize_and_insert kennel (Some ''m1'') ''success'' (Some ''bella'')
          \<lparr> u_id = Some ''owner-f'' \<rparr> (JStr ''4'') (Some ''went well'')"
proof -
  have rex: "select_dog kennel_m (Some ''rex'') = (Some rex, None)"
    by code_simp
  have male: "d_gender rex = Some ''male''"
    by (simp add: rex_def)
  have pre_m: "preconditions kennel_m (Some ''m1'') ''success'' (Some ''rex'')
      \<lparr> u_id = Some ''owner-m'' \<rparr> rex request_m1"
    by code_simp
  have run: "fst (submitMatchOutcome kennel_m (Some ''m1'') ''no_show'' (Some ''rex'') JNull
        (Some ''she did not come'')) = Inr (Some
          \<lparr> o_id = ''row-'', o_match_id = Some ''m1'', o_outcome = ''no_show'',
            o_litter_size = Some (Fin 0), o_notes = Some ''she did not come'',
            o_verified_at = Some 100, o_verified_by_user_id = Some ''owner-m'',
            o_verified_by_dog_id = Some ''rex'' \<rparr>)"
    by code_simp
  have bella: "select_dog kennel (Some ''bella'') = (Some bella, None)"
    by code_simp
  have female: "d_gender bella = Some ''female''"
    by (simp add: bella_def)
  have pre_f: "preconditions kennel (Some ''m1'') ''success'' (Some ''bella'')
      \<lparr> u_id = Some ''owner-f'' \<rparr> bella request_m1"
    by code_simp
  show ?thesis
    using rex male pre_m run bella female pre_f
      role_gate [OF rex, of "Some ''m1''" "''success''" "JStr ''4''" "Some ''went well''"
        "None" "\<lparr> u_id = Some ''owner-m'' \<rparr>" request_m1]
      role_gate [OF bella, of "Some ''m1''" "''success''" "JStr ''4''" "Some ''went well''"
        "None" "\<lparr> u_id = Some ''owner-f'' \<rparr>" request_m1]
    by simp
qed

text \<open>
  Claim C2 (litter size). Whenever \<^verbatim>\<open>submitMatchOutcome\<close> returns, it returns the row it
  has added to \<^verbatim>\<open>dog_match_outcomes\<close>. For the outcome \<^verbatim>\<open>success\<close> the \<open>litter_size\<close> of
  that row is \<^verbatim>\<open>Number(litterSize)\<close>, a finite number of at least 1; for \<^verbatim>\<open>failed\<close> and
  \<^verbatim>\<open>no_show\<close> it is 0 whatever \<^verbatim>\<open>litterSize\<close> was. A \<^verbatim>\<open>success\<close> call that has passed the
  preconditions 1 to 5 and the role gate, and whose \<^verbatim>\<open>Number(litterSize)\<close> is not a
  finite number of at least 1, throws InvalidLitterSize and writes nothing.
\<close>

theorem litter_size_rule:
  "(fst (submitMatchOutcome w matchId outcome verifiedDogId litterSize notes) = Inr data \<longrightarrow>
      (\<exists>row. data = Some row
         \<and> row \<in> set (tbl_dog_match_outcomes
               (snd (submitMatchOutcome w matchId outcome verifiedDogId litterSize notes)))
         \<and> (outcome = ''success'' \<longrightarrow>
               o_litter_size row = Some (Number_of (StringToNumber w) litterSize)
               \<and> (\<exists>q. Number_of (StringToNumber w) litterSize = Fin q \<and> 1 \<le> q))
         \<and> (outcome = ''failed'' \<or> outcome = ''no_show'' \<longrightarrow>
               o_litter_size row = Some (Fin 0))))
   \<and> (preconditions w matchId outcome verifiedDogId user dog match
        \<and> gender_gate dog outcome = None
        \<and> outcome = ''success''
        \<and> \<not> (\<exists>q. Number_of (StringToNumber w) litterSize = Fin q \<and> 1 \<le> q)
        \<longrightarrow> submitMatchOutcome w matchId outcome verifiedDogId litterSize notes
              = (Inl InvalidLitterSize, w))"
proof (intro conjI impI)
  assume ok: "fst (submitMatchOutcome w matchId outcome verifiedDogId litterSize notes) = Inr data"
  from submit_stored [OF ok] obtain u l t
    where norm: "normalize_outcome (StringToNumber w) outcome litterSize notes = Inr (l, t)"
      and data: "data = Some (outcome_row w (submitted matchId outcome verifiedDogId u l t))"
      and tbl: "tbl_dog_match_outcomes
                (snd (submitMatchOutcome w matchId outcome verifiedDogId litterSize notes))
              = tbl_dog_match_outcomes w
                  @ [outcome_row w (submitted matchId outcome verifiedDogId u l t)]"
    by blast
  show "\<exists>row. data = Some row
         \<and> row \<in> set (tbl_dog_match_outcomes
               (snd (submitMatchOutcome w matchId outcome verifiedDogId litterSize notes)))
         \<and> (outcome = ''success'' \<longrightarrow>
               o_litter_size row = Some (Number_of (StringToNumber w) litterSize)
               \<and> (\<exists>q. Number_of (StringToNumber w) litterSize = Fin q \<and> 1 \<le> q))
         \<and> (outcome = ''failed'' \<or> outcome = ''no_show'' \<longrightarrow>
               o_litter_size row = Some (Fin 0))"
  proof -
    let ?row = "outcome_row w (submitted matchId outcome verifiedDogId u l t)"
    have stored: "?row \<in> set (tbl_dog_match_outcomes
               (snd (submitMatchOutcome w matchId outcome verifiedDogId litterSize notes)))"
      by (simp add: tbl)
    have success: "outcome = ''success'' \<longrightarrow>
               o_litter_size ?row = Some (Number_of (StringToNumber w) litterSize)
               \<and> (\<exists>q. Number_of (StringToNumber w) litterSize = Fin q \<and> 1 \<le> q)"
      using normalize_success(2) [OF norm] by (simp add: stored_fields)
    have other: "outcome = ''failed'' \<or> outcome = ''no_show'' \<longrightarrow>
               o_litter_size ?row = Some (Fin 0)"
      using normalize_success(3,4) [OF norm] by (auto simp: stored_fields)
    from data stored success other show ?thesis
      by blast
  qed
next
  assume h: "preconditions w matchId outcome verifiedDogId user dog match
        \<and> gender_gate dog outcome = None
        \<and> outcome = ''success''
        \<and> \<not> (\<exists>q. Number_of (StringToNumber w) litterSize = Fin q \<and> 1 \<le> q)"
  then have pre: "preconditions w matchId outcome verifiedDogId user dog match"
    and gate: "gender_gate dog outcome = None"
    and out: "outcome = ''success''"
    and bad: "\<not> isFinite (Number_of (StringToNumber w) litterSize)
             \<or> lt_one (Number_of (StringToNumber w) litterSize)"
    by (auto simp: isFinite_def lt_one_def split: jsnum.splits)
  from out bad
  have "normalize_outcome (StringToNumber w) outcome litterSize notes = Inl InvalidLitterSize"
    by (auto simp: normalize_outcome_def InvalidLitterSize_def Let_def)
  with submit_after_checks [OF pre] gate
  show "submitMatchOutcome w matchId outcome verifiedDogId litterSize notes
      = (Inl InvalidLitterSize, w)"
    by (simp add: normalize_and_insert_def)
qed


theorem litter_size_rule_witness:
  "fst (submitMatchOutcome kennel (Some ''m1'') ''success'' (Some ''bella'') (JStr ''4'')
          (Some ''went well''))
     = Inr (Some
         \<lparr> o_id = ''row-'', o_match_id = Some ''m1'', o_outcome = ''success'',
           o_litter_size = Some (Fin 4), o_notes = Some ''went well'',
           o_verified_at = Some 100, o_verified_by_user_id = Some ''owner-f'',
           o_verified_by_dog_id = Some ''bella'' \<rparr>)
   \<and> Number_of (StringToNumber kennel) (JStr ''4'') = Fin 4
   \<and> fst (submitMatchOutcome kennel (Some ''m1'') ''failed'' (Some ''bella'') (JNum (Fin 7))
          None)
     = Inr (Some
         \<lparr> o_id = ''row-'', o_match_id = Some ''m1'', o_outcome = ''failed'',
           o_litter_size = Some (Fin 0), o_notes = None,
           o_verified_at = Some 100, o_verified_by_user_id = Some ''owner-f'',
           o_verified_by_dog_id = Some ''bella'' \<rparr>)
   \<and> preconditions kennel (Some ''m1'') ''success'' (Some ''bella'')
        \<lparr> u_id = Some ''owner-f'' \<rparr> bella request_m1
   \<and> gender_gate bella ''success'' = None
   \<and> Number_of (StringToNumber kennel) JNull = Fin 0
   \<and> submitMatchOutcome kennel (Some ''m1'') ''success'' (Some ''bella'') JNull
        (Some ''went well'') = (Inl InvalidLitterSize, kennel)"
proof -
  have run4: "fst (submitMatchOutcome kennel (Some ''m1'') ''success'' (Some ''bella'')
          (JStr ''4'') (Some ''went well''))
     = Inr (Some
         \<lparr> o_id = ''row-'', o_match_id = Some ''m1'', o_outcome = ''success'',
           o_litter_size = Some (Fin 4), o_notes = Some ''went well'',
           o_verified_at = Some 100, o_verified_by_user_id = Some ''owner-f'',
           o_verified_by_dog_id = Some ''bella'' \<rparr>)"
    by code_simp
  have four: "Number_of (StringToNumber kennel) (JStr ''4'') = Fin 4"
    by code_simp
  have run0: "fst (submitMatchOutcome kennel (Some ''m1'') ''failed'' (Some ''bella'')
          (JNum (Fin 7)) None)
     = Inr (Some
         \<lparr> o_id = ''row-'', o_match_id = Some ''m1'', o_outcome = ''failed'',
           o_litter_size = Some (Fin 0), o_notes = None,
           o_verified_at = Some 100, o_verified_by_user_id = Some ''owner-f'',
           o_verified_by_dog_id = Some ''bella'' \<rparr>)"
    by code_simp
  have pre: "preconditions kennel (Some ''m1'') ''success'' (Some ''bella'')
        \<lparr> u_id = Some ''owner-f'' \<rparr> bella request_m1"
    by code_simp
  have gate: "gender_gate bella ''success'' = None"
    by code_simp
  have null: "Number_of (StringToNumber kennel) JNull = Fin 0"
    by (simp add: Number_of_def)
  show ?thesis
    using run4 four run0 pre gate null
      litter_size_rule [of kennel "Some ''m1''" "''success''" "Some ''bella''" JNull
        "Some ''went well''" None "\<lparr> u_id = Some ''owner-f'' \<rparr>" bella request_m1]
    by simp
qed

text \<open>
  Claim C5 (blank notes on \<^verbatim>\<open>success\<close> or \<^verbatim>\<open>no_show\<close> always fail with NotesRequired)
  does not hold as stated. For \<^verbatim>\<open>success\<close> the source checks the litter size before the
  notes: a \<^verbatim>\<open>success\<close> call with empty notes and the litter size \<^verbatim>\<open>null\<close> throws
  InvalidLitterSize, which is not the error NotesRequired.
\<close>

theorem notes_required_counterexample:
  "trim [] = []
   \<and> fst (submitMatchOutcome kennel (Some ''m1'') ''success'' (Some ''bella'') JNull (Some []))
       = Inl (Error ''For success, litter size must be at least 1'')
   \<and> InvalidLitterSize = Error ''For success, litter size must be at least 1''
   \<and> NotesRequired ''success'' = Error ''Notes are required for successful breeding''
   \<and> fst (submitMatchOutcome kennel (Some ''m1'') ''success'' (Some ''bella'') JNull (Some []))
       \<noteq> Inl (NotesRequired ''success'')"
  by code_simp

text \<open>
  Claim C5 as amended. With notes that are missing, empty or white space only, a
  \<^verbatim>\<open>success\<close> or \<^verbatim>\<open>no_show\<close> call never returns. Once it has passed the preconditions 1 to
  5 and the role gate, a \<^verbatim>\<open>no_show\<close> call with such notes throws NotesRequired, and so
  does a \<^verbatim>\<open>success\<close> call whose litter size is a finite number of at least 1; a
  \<^verbatim>\<open>success\<close> call whose litter size is not throws InvalidLitterSize whatever its notes
  are, because that check comes first. A \<^verbatim>\<open>failed\<close> call that has passed the
  preconditions and the gate returns whatever its notes are, unless the storage fails;
  the \<open>notes\<close> of the row it adds are the trimmed notes, and \<^verbatim>\<open>null\<close> when these are
  empty.
\<close>

theorem notes_rule:
  assumes "trimmedNotes = trim (case notes of None \<Rightarrow> [] | Some s \<Rightarrow> s)"
  shows "(trimmedNotes = [] \<and> (outcome = ''success'' \<or> outcome = ''no_show'')
            \<longrightarrow> fst (submitMatchOutcome w matchId outcome verifiedDogId litterSize notes)
                  \<noteq> Inr data)
   \<and> (preconditions w matchId outcome verifiedDogId user dog match
        \<and> gender_gate dog outcome = None
        \<and> trimmedNotes = []
        \<and> (outcome = ''no_show''
            \<or> outcome = ''success''
               \<and> (\<exists>q. Number_of (StringToNumber w) litterSize = Fin q \<and> 1 \<le> q))
        \<longrightarrow> submitMatchOutcome w matchId outcome verifiedDogId litterSize notes
              = (Inl (NotesRequired outcome), w))
   \<and> (preconditions w matchId outcome verifiedDogId user dog match
        \<and> gender_gate dog outcome = None
        \<and> outcome = ''failed''
        \<and> failure w InsertOutcome = None
        \<longrightarrow> (\<exists>row.
               fst (submitMatchOutcome w matchId outcome verifiedDogId litterSize notes)
                 = Inr (Some row)
               \<and> row \<in> set (tbl_dog_match_outcomes
                     (snd (submitMatchOutcome w matchId outcome verifiedDogId litterSize notes)))
               \<and> o_notes row = (if trimmedNotes = [] then None else Some trimmedNotes)))
   \<and> (preconditions w matchId outcome verifiedDogId user dog match
        \<and> gender_gate dog outcome = None
        \<and> outcome = ''success''
        \<and> \<not> (\<exists>q. Number_of (StringToNumber w) litterSize = Fin q \<and> 1 \<le> q)
        \<longrightarrow> submitMatchOutcome w matchId outcome verifiedDogId litterSize notes
              = (Inl InvalidLitterSize, w))"
proof (intro conjI impI)
  assume h: "trimmedNotes = [] \<and> (outcome = ''success'' \<or> outcome = ''no_show'')"
  show "fst (submitMatchOutcome w matchId outcome verifiedDogId litterSize notes) \<noteq> Inr data"
  proof
    assume ok: "fst (submitMatchOutcome w matchId outcome verifiedDogId litterSize notes)
        = Inr data"
    from submit_stored [OF ok] obtain u l t
      where norm: "normalize_outcome (StringToNumber w) outcome litterSize notes = Inr (l, t)"
      by blast
    from normalize_success(1) [OF norm] assms have "t = trimmedNotes"
      by simp
    with h normalize_success(2,4) [OF norm] show False
      by auto
  qed
next
  assume h: "preconditions w matchId outcome verifiedDogId user dog match
        \<and> gender_gate dog outcome = None
        \<and> trimmedNotes = []
        \<and> (outcome = ''no_show''
            \<or> outcome = ''success''
               \<and> (\<exists>q. Number_of (StringToNumber w) litterSize = Fin q \<and> 1 \<le> q))"
  then have pre: "preconditions w matchId outcome verifiedDogId user dog match"
    and gate: "gender_gate dog outcome = None"
    by simp_all
  from h assms
  have "normalize_outcome (StringToNumber w) outcome litterSize notes
      = Inl (NotesRequired outcome)"
    by (auto simp: normalize_outcome_def NotesRequired_def Let_def isFinite_def lt_one_def)
  with submit_after_checks [OF pre] gate
  show "submitMatchOutcome w matchId outcome verifiedDogId litterSize notes
      = (Inl (NotesRequired outcome), w)"
    by (simp add: normalize_and_insert_def)
next
  assume h: "preconditions w matchId outcome verifiedDogId user dog match
        \<and> gender_gate dog outcome = None
        \<and> outcome = ''failed''
        \<and> failure w InsertOutcome = None"
  then have pre: "preconditions w matchId outcome verifiedDogId user dog match"
    and gate: "gender_gate dog outcome = None"
    and out: "outcome = ''failed''"
    and ins: "failure w InsertOutcome = None"
    by blast+
  let ?row = "outcome_row w
      (submitted matchId outcome verifiedDogId user (Some (Fin 0)) trimmedNotes)"
  from out assms
  have norm: "normalize_outcome (StringToNumber w) outcome litterSize notes
      = Inr (Some (Fin 0), trimmedNotes)"
    by (simp add: normalize_outcome_def Let_def)
  with submit_after_checks [OF pre] gate ins
  have run: "submitMatchOutcome w matchId outcome verifiedDogId litterSize notes
      = (Inr (Some ?row),
         w\<lparr> tbl_dog_match_outcomes := tbl_dog_match_outcomes w @ [?row],
            serial := Suc (serial w) \<rparr>)"
    by (simp add: normalize_and_insert_def insert_outcome_def)
  show "\<exists>row.
      fst (submitMatchOutcome w matchId outcome verifiedDogId litterSize notes) = Inr (Some row)
      \<and> row \<in> set (tbl_dog_match_outcomes
            (snd (submitMatchOutcome w matchId outcome verifiedDogId litterSize notes)))
      \<and> o_notes row = (if trimmedNotes = [] then None else Some trimmedNotes)"
    unfolding run
    by (intro exI [of _ ?row]) (simp add: stored_fields)
next
  assume h: "preconditions w matchId outcome verifiedDogId user dog match
        \<and> gender_gate dog outcome = None
        \<and> outcome = ''success''
        \<and> \<not> (\<exists>q. Number_of (StringToNumber w) litterSize = Fin q \<and> 1 \<le> q)"
  then have pre: "preconditions w matchId outcome verifiedDogId user dog match"
    and gate: "gender_gate dog outcome = None"
    and out: "outcome = ''success''"
    and bad: "\<not> isFinite (Number_of (StringToNumber w) litterSize)
             \<or> lt_one (Number_of (StringToNumber w) litterSize)"
    by (auto simp: isFinite_def lt_one_def split: jsnum.splits)
  from out bad
  have "normalize_outcome (StringToNumber w) outcome litterSize notes = Inl InvalidLitterSize"
    by (auto simp: normalize_outcome_def InvalidLitterSize_def Let_def)
  with submit_after_checks [OF pre] gate
  show "submitMatchOutcome w matchId outcome verifiedDogId litterSize notes
      = (Inl InvalidLitterSize, w)"
    by (simp add: normalize_and_insert_def)
qed

theorem notes_rule_witness:
  "trim [CHR 0x09, CHR 0x0A, CHR 0xC2, CHR 0xA0, CHR 0x20] = []
   \<and> preconditions kennel_m (Some ''m1'') ''no_show'' (Some ''rex'')
        \<lparr> u_id = Some ''owner-m'' \<rparr> rex request_m1
   \<and> gender_gate rex ''no_show'' = None
   \<and> submitMatchOutcome kennel_m (Some ''m1'') ''no_show'' (Some ''rex'') JNull
        (Some [CHR 0x09, CHR 0x0A, CHR 0xC2, CHR 0xA0, CHR 0x20])
       = (Inl (Error ''Notes are required for no show outcome''), kennel_m)
   \<and> fst (submitMatchOutcome kennel_m (Some ''m1'') ''no_show'' (Some ''rex'') JNull
           (Some [CHR 0x09, CHR 0x0A, CHR 0xC2, CHR 0xA0, CHR 0x20])) \<noteq> Inr None
   \<and> preconditions kennel (Some ''m1'') ''success'' (Some ''bella'')
        \<lparr> u_id = Some ''owner-f'' \<rparr> bella request_m1
   \<and> gender_gate bella ''success'' = None
   \<and> Number_of (StringToNumber kennel) (JNum (Fin 3)) = Fin 3
   \<and> submitMatchOutcome kennel (Some ''m1'') ''success'' (Some ''bella'') (JNum (Fin 3))
        (Some [CHR 0x09, CHR 0x0A, CHR 0xC2, CHR 0xA0, CHR 0x20])
       = (Inl (Error ''Notes are required for successful breeding''), kennel)
   \<and> Number_of (StringToNumber kennel) JNull = Fin 0
   \<and> submitMatchOutcome kennel (Some ''m1'') ''success'' (Some ''bella'') JNull
        (Some [CHR 0x09, CHR 0x0A, CHR 0xC2, CHR 0xA0, CHR 0x20])
       = (Inl (Error ''For success, litter size must be at least 1''), kennel)
   \<and> trim [CHR 0x0A, CHR ''n'', CHR ''o'', CHR 0x20, CHR ''l'', CHR ''u'', CHR ''c'',
          CHR ''k'', CHR 0xC2, CHR 0xA0, CHR 0x09] = ''no luck''
   \<and> preconditions kennel (Some ''m1'') ''failed'' (Some ''bella'')
        \<lparr> u_id = Some ''owner-f'' \<rparr> bella request_m1
   \<and> gender_gate bella ''failed'' = None
   \<and> failure kennel InsertOutcome = None
   \<and> fst (submitMatchOutcome kennel (Some ''m1'') ''failed'' (Some ''bella'') JNull
           (Some [CHR 0x0A, CHR ''n'', CHR ''o'', CHR 0x20, CHR ''l'', CHR ''u'', CHR ''c'',
              CHR ''k'', CHR 0xC2, CHR 0xA0, CHR 0x09]))
       = Inr (Some
           \<lparr> o_id = ''row-'', o_match_id = Some ''m1'', o_outcome = ''failed'',
             o_litter_size = Some (Fin 0), o_notes = Some ''no luck'',
             o_verified_at = Some 100, o_verified_by_user_id = Some ''owner-f'',
             o_verified_by_dog_id = Some ''bella'' \<rparr>)
   \<and> fst (submitMatchOutcome kennel (Some ''m1'') ''failed'' (Some ''bella'') JNull
           (Some [CHR 0x09, CHR 0x0A, CHR 0xC2, CHR 0xA0, CHR 0x20]))
       = Inr (Some
           \<lparr> o_id = ''row-'', o_match_id = Some ''m1'', o_outcome = ''failed'',
             o_litter_size = Some (Fin 0), o_notes = None,
             o_verified_at = Some 100, o_verified_by_user_id = Some ''owner-f'',
             o_verified_by_dog_id = Some ''bella'' \<rparr>)"
proof -
  have blank: "trim [CHR 0x09, CHR 0x0A, CHR 0xC2, CHR 0xA0, CHR 0x20] = []"
    by code_simp
  have pre_m: "preconditions kennel_m (Some ''m1'') ''no_show'' (Some ''rex'')
        \<lparr> u_id = Some ''owner-m'' \<rparr> rex request_m1"
    by code_simp
  have gate_m: "gender_gate rex ''no_show'' = None"
    by code_simp
  have pre_s: "preconditions kennel (Some ''m1'') ''success'' (Some ''bella'')
        \<lparr> u_id = Some ''owner-f'' \<rparr> bella request_m1"
    by code_simp
  have gate_s: "gender_gate bella ''success'' = None"
    by code_simp
  have three: "Number_of (StringToNumber kennel) (JNum (Fin 3)) = Fin 3"
    by (simp add: Number_of_def)
  have null: "Number_of (StringToNumber kennel) JNull = Fin 0"
    by (simp add: Number_of_def)
  have kept: "trim [CHR 0x0A, CHR ''n'', CHR ''o'', CHR 0x20, CHR ''l'', CHR ''u'', CHR ''c'',
          CHR ''k'', CHR 0xC2, CHR 0xA0, CHR 0x09] = ''no luck''"
    by code_simp
  have pre_f: "preconditions kennel (Some ''m1'') ''failed'' (Some ''bella'')
        \<lparr> u_id = Some ''owner-f'' \<rparr> bella request_m1"
    by code_simp
  have gate_f: "gender_gate bella ''failed'' = None"
    by code_simp
  have ins: "failure kennel InsertOutcome = None"
    by code_simp
  have run: "fst (submitMatchOutcome kennel (Some ''m1'') ''failed'' (Some ''bella'') JNull
           (Some [CHR 0x0A, CHR ''n'', CHR ''o'', CHR 0x20, CHR ''l'', CHR ''u'', CHR ''c'',
              CHR ''k'', CHR 0xC2, CHR 0xA0, CHR 0x09]))
       = Inr (Some
           \<lparr> o_id = ''row-'', o_match_id = Some ''m1'', o_outcome = ''failed'',
             o_litter_size = Some (Fin 0), o_notes = Some ''no luck'',
             o_verified_at = Some 100, o_verified_by_user_id = Some ''owner-f'',
             o_verified_by_dog_id = Some ''bella'' \<rparr>)"
    by code_simp
  have run_blank: "fst (submitMatchOutcome kennel (Some ''m1'') ''failed'' (Some ''bella'')
           JNull (Some [CHR 0x09, CHR 0x0A, CHR 0xC2, CHR 0xA0, CHR 0x20]))
       = Inr (Some
           \<lparr> o_id = ''row-'', o_match_id = Some ''m1'', o_outcome = ''failed'',
             o_litter_size = Some (Fin 0), o_notes = None,
             o_verified_at = Some 100, o_verified_by_user_id = Some ''owner-f'',
             o_verified_by_dog_id = Some ''bella'' \<rparr>)"
    by code_simp
  have t1: "[] = trim (case Some [CHR 0x09, CHR 0x0A, CHR 0xC2, CHR 0xA0, CHR 0x20] of
      None \<Rightarrow> [] | Some s \<Rightarrow> s)"
    using blank by simp
  have t2: "''no luck'' = trim (case Some [CHR 0x0A, CHR ''n'', CHR ''o'', CHR 0x20, CHR ''l'',
      CHR ''u'', CHR ''c'', CHR ''k'', CHR 0xC2, CHR 0xA0, CHR 0x09] of
      None \<Rightarrow> [] | Some s \<Rightarrow> s)"
    using kept by simp
  have kinds: "NotesRequired ''no_show'' = Error ''Notes are required for no show outcome''"
    "NotesRequired ''success'' = Error ''Notes are required for successful breeding''"
    "InvalidLitterSize = Error ''For success, litter size must be at least 1''"
    by (simp_all add: NotesRequired_def InvalidLitterSize_def)
  show ?thesis
    using blank pre_m gate_m pre_s gate_s three null kept pre_f gate_f ins run run_blank kinds
      notes_rule [OF t1, of "''no_show''" kennel_m "Some ''m1''" "Some ''rex''" JNull None
        "\<lparr> u_id = Some ''owner-m'' \<rparr>" rex request_m1]
      notes_rule [OF t1, of "''success''" kennel "Some ''m1''" "Some ''bella''" "JNum (Fin 3)"
        None "\<lparr> u_id = Some ''owner-f'' \<rparr>" bella request_m1]
      notes_rule [OF t1, of "''success''" kennel "Some ''m1''" "Some ''bella''" JNull
        None "\<lparr> u_id = Some ''owner-f'' \<rparr>" bella request_m1]
      notes_rule [OF t2, of "''failed''" kennel "Some ''m1''" "Some ''bella''" JNull None
        "\<lparr> u_id = Some ''owner-f'' \<rparr>" bella request_m1]
    by simp
qed

text \<open>
  Claim C7 (the litter size is a non-negative integer) does not hold: the source stores
  \<^verbatim>\<open>Number(litterSize)\<close> of a \<^verbatim>\<open>success\<close> call as it is, once it is finite and at least 1.
  With the litter size 2.5 the call returns a row whose \<open>litter_size\<close> is 2.5.
\<close>

theorem litter_size_integer_counterexample:
  "fst (submitMatchOutcome kennel (Some ''m1'') ''success'' (Some ''bella'')
          (JNum (Fin (5 / 2))) (Some ''went well''))
     = Inr (Some
         \<lparr> o_id = ''row-'', o_match_id = Some ''m1'', o_outcome = ''success'',
           o_litter_size = Some (Fin (5 / 2)), o_notes = Some ''went well'',
           o_verified_at = Some 100, o_verified_by_user_id = Some ''owner-f'',
           o_verified_by_dog_id = Some ''bella'' \<rparr>)
   \<and> \<not> nonneg_integer (Fin (5 / 2))"
  by code_simp

text \<open>
  Claim C7 as amended. Whenever \<^verbatim>\<open>submitMatchOutcome\<close> returns, the \<open>litter_size\<close> of the
  row is a finite number that is not negative: 0 unless the outcome is \<^verbatim>\<open>success\<close>, and
  for \<^verbatim>\<open>success\<close> the number \<^verbatim>\<open>Number(litterSize)\<close>, at least 1 and stored as given. It is
  a non-negative integer exactly when the outcome is not \<^verbatim>\<open>success\<close> or that number is
  one.
\<close>

theorem litter_size_stored_number:
  assumes "fst (submitMatchOutcome w matchId outcome verifiedDogId litterSize notes) = Inr data"
  shows "\<exists>row q. data = Some row
           \<and> o_litter_size row = Some (Fin q) \<and> 0 \<le> q
           \<and> (outcome = ''success'' \<longrightarrow>
                 1 \<le> q \<and> Number_of (StringToNumber w) litterSize = Fin q)
           \<and> (outcome \<noteq> ''success'' \<longrightarrow> q = 0)
           \<and> nonneg_integer (Fin q)
               = (outcome \<noteq> ''success''
                  \<or> nonneg_integer (Number_of (StringToNumber w) litterSize))"
proof -
  from submit_stored [OF assms] obtain u l t
    where norm: "normalize_outcome (StringToNumber w) outcome litterSize notes = Inr (l, t)"
      and data: "data = Some (outcome_row w (submitted matchId outcome verifiedDogId u l t))"
    by blast
  let ?row = "outcome_row w (submitted matchId outcome verifiedDogId u l t)"
  have size: "o_litter_size ?row = l"
    by (simp add: stored_fields)
  show ?thesis
  proof (cases "outcome = ''success''")
    case True
    with normalize_success(2) [OF norm] obtain q
      where "l = Some (Fin q)" and "1 \<le> q"
        and "Number_of (StringToNumber w) litterSize = Fin q"
      by auto
    with True data size show ?thesis
      by (intro exI [of _ ?row] exI [of _ q]) simp
  next
    case False
    with succeeds_outcome [OF assms] normalize_success(3,4) [OF norm]
    have "l = Some (Fin 0)"
      by auto
    with False data size show ?thesis
      by (intro exI [of _ ?row] exI [of _ 0]) (simp add: nonneg_integer_def)
  qed
qed

theorem litter_size_stored_number_witness:
  "fst (submitMatchOutcome kennel (Some ''m1'') ''success'' (Some ''bella'')
          (JNum (Fin (5 / 2))) (Some ''went well''))
     = Inr (Some
         \<lparr> o_id = ''row-'', o_match_id = Some ''m1'', o_outcome = ''success'',
           o_litter_size = Some (Fin (5 / 2)), o_notes = Some ''went well'',
           o_verified_at = Some 100, o_verified_by_user_id = Some ''owner-f'',
           o_verified_by_dog_id = Some ''bella'' \<rparr>)
   \<and> Number_of (StringToNumber kennel) (JNum (Fin (5 / 2))) = Fin (5 / 2)
   \<and> (\<exists>q. 1 \<le> q \<and> Fin (5 / 2) = Fin q \<and> \<not> nonneg_integer (Fin q))"
proof -
  have run: "fst (submitMatchOutcome kennel (Some ''m1'') ''success'' (Some ''bella'')
          (JNum (Fin (5 / 2))) (Some ''went well''))
     = Inr (Some
         \<lparr> o_id = ''row-'', o_match_id = Some ''m1'', o_outcome = ''success'',
           o_litter_size = Some (Fin (5 / 2)), o_notes = Some ''went well'',
           o_verified_at = Some 100, o_verified_by_user_id = Some ''owner-f'',
           o_verified_by_dog_id = Some ''bella'' \<rparr>)"
    by code_simp
  have num: "Number_of (StringToNumber kennel) (JNum (Fin (5 / 2))) = Fin (5 / 2)"
    by (simp add: Number_of_def)
  have frac: "\<not> nonneg_integer (Fin (5 / 2))"
    by code_simp
  from litter_size_stored_number [OF run] num frac
  have "\<exists>q. 1 \<le> q \<and> Fin (5 / 2) = Fin q \<and> \<not> nonneg_integer (Fin q)"
    by auto
  with run num show ?thesis
    by blast
qed

text \<open>
  Claim C10 (the gate reads the lowered gender only). Let \<open>dogGender\<close> be the gender of the
  verifying dog in lower case, the empty string when the column is \<^verbatim>\<open>null\<close>. It equals
  \<^verbatim>\<open>male\<close> exactly when the gender is a letter-case variant of \<^verbatim>\<open>male\<close>. A call that has
  passed the preconditions 1 to 5 throws ForbiddenOutcome when \<open>dogGender\<close> is \<^verbatim>\<open>male\<close>
  and the outcome is not \<^verbatim>\<open>no_show\<close>; in every other case (a variant of \<^verbatim>\<open>male\<close> with
  \<^verbatim>\<open>no_show\<close>; a gender that is \<^verbatim>\<open>female\<close>, empty, missing or anything else, with any
  outcome) it goes on to the normalization and the insert.
\<close>

theorem gate_by_lowercase:
  assumes "preconditions w matchId outcome verifiedDogId user dog match"
    and "dogGender = toLowerCase (case d_gender dog of None \<Rightarrow> [] | Some g \<Rightarrow> g)"
  shows "(dogGender = ''male'')
           = case_variant_of_male (case d_gender dog of None \<Rightarrow> [] | Some g \<Rightarrow> g)
   \<and> (dogGender = ''male'' \<and> outcome \<noteq> ''no_show''
        \<longrightarrow> submitMatchOutcome w matchId outcome verifiedDogId litterSize notes
              = (Inl ForbiddenOutcome, w))
   \<and> (dogGender \<noteq> ''male'' \<or> outcome = ''no_show''
        \<longrightarrow> submitMatchOutcome w matchId outcome verifiedDogId litterSize notes
              = normalize_and_insert w matchId outcome verifiedDogId user litterSize notes)"
  using assms(2) submit_after_checks [OF assms(1)]
  by (auto simp: toLowerCase_male gender_gate_def ForbiddenOutcome_def Let_def)

theorem gate_by_lowercase_witness:
  "preconditions (kennel_m\<lparr> tbl_dogs := [bella, rex\<lparr> d_gender := Some ''MaLe'' \<rparr>] \<rparr>)
      (Some ''m1'') ''failed'' (Some ''rex'') \<lparr> u_id = Some ''owner-m'' \<rparr>
      (rex\<lparr> d_gender := Some ''MaLe'' \<rparr>) request_m1
   \<and> toLowerCase ''MaLe'' = ''male''
   \<and> case_variant_of_male ''MaLe''
   \<and> submitMatchOutcome (kennel_m\<lparr> tbl_dogs := [bella, rex\<lparr> d_gender := Some ''MaLe'' \<rparr>] \<rparr>)
        (Some ''m1'') ''failed'' (Some ''rex'') JNull None
       = (Inl ForbiddenOutcome, kennel_m\<lparr> tbl_dogs := [bella, rex\<lparr> d_gender := Some ''MaLe'' \<rparr>] \<rparr>)
   \<and> preconditions (kennel\<lparr> tbl_dogs := [bella\<lparr> d_gender := None \<rparr>, rex] \<rparr>)
      (Some ''m1'') ''success'' (Some ''bella'') \<lparr> u_id = Some ''owner-f'' \<rparr>
      (bella\<lparr> d_gender := None \<rparr>) request_m1
   \<and> submitMatchOutcome (kennel\<lparr> tbl_dogs := [bella\<lparr> d_gender := None \<rparr>, rex] \<rparr>)
        (Some ''m1'') ''success'' (Some ''bella'') (JStr ''4'') (Some ''went well'')
       = normalize_and_insert (kennel\<lparr> tbl_dogs := [bella\<lparr> d_gender := None \<rparr>, rex] \<rparr>)
           (Some ''m1'') ''success'' (Some ''bella'') \<lparr> u_id = Some ''owner-f'' \<rparr>
           (JStr ''4'') (Some ''went well'')
   \<and> fst (submitMatchOutcome (kennel\<lparr> tbl_dogs := [bella\<lparr> d_gender := None \<rparr>, rex] \<rparr>)
        (Some ''m1'') ''success'' (Some ''bella'') (JStr ''4'') (Some ''went well''))
       = Inr (Some
           \<lparr> o_id = ''row-'', o_match_id = Some ''m1'', o_outcome = ''success'',
             o_litter_size = Some (Fin 4), o_notes = Some ''went well'',
             o_verified_at = Some 100, o_verified_by_user_id = Some ''owner-f'',
             o_verified_by_dog_id = Some ''bella'' \<rparr>)"
proof -
  have pre_m: "preconditions
      (kennel_m\<lparr> tbl_dogs := [bella, rex\<lparr> d_gender := Some ''MaLe'' \<rparr>] \<rparr>)
      (Some ''m1'') ''failed'' (Some ''rex'') \<lparr> u_id = Some ''owner-m'' \<rparr>
      (rex\<lparr> d_gender := Some ''MaLe'' \<rparr>) request_m1"
    by code_simp
  have low: "toLowerCase ''MaLe'' = ''male''"
    by code_simp
  have g_m: "''male'' = toLowerCase
      (case d_gender (rex\<lparr> d_gender := Some ''MaLe'' \<rparr>) of None \<Rightarrow> [] | Some g \<Rightarrow> g)"
    using low by simp
  have pre_f: "preconditions (kennel\<lparr> tbl_dogs := [bella\<lparr> d_gender := None \<rparr>, rex] \<rparr>)
      (Some ''m1'') ''success'' (Some ''bella'') \<lparr> u_id = Some ''owner-f'' \<rparr>
      (bella\<lparr> d_gender := None \<rparr>) request_m1"
    by code_simp
  have g_f: "[] = toLowerCase
      (case d_gender (bella\<lparr> d_gender := None \<rparr>) of None \<Rightarrow> [] | Some g \<Rightarrow> g)"
    by (simp add: toLowerCase_def)
  have run: "fst (submitMatchOutcome (kennel\<lparr> tbl_dogs := [bella\<lparr> d_gender := None \<rparr>, rex] \<rparr>)
        (Some ''m1'') ''success'' (Some ''bella'') (JStr ''4'') (Some ''went well''))
       = Inr (Some
           \<lparr> o_id = ''row-'', o_match_id = Some ''m1'', o_outcome = ''success'',
             o_litter_size = Some (Fin 4), o_notes = Some ''went well'',
             o_verified_at = Some 100, o_verified_by_user_id = Some ''owner-f'',
             o_verified_by_dog_id = Some ''bella'' \<rparr>)"
    by code_simp
  show ?thesis
    using pre_m low pre_f run
      gate_by_lowercase [OF pre_m g_m, of JNull None]
      gate_by_lowercase [OF pre_f g_f, of "JStr ''4''" "Some ''went well''"]
    by simp
qed

section \<open>The claims about the match request lifecycle\<close>

text \<open>
  Claim C3 (no second active request). Let the conversation \<^verbatim>\<open>contactId\<close> have a request
  whose status is \<^verbatim>\<open>pending\<close>, \<^verbatim>\<open>accepted\<close> or \<^verbatim>\<open>awaiting_confirmation\<close>. Then
  \<^verbatim>\<open>createMatchRequest\<close> for that conversation never returns. When its arguments pass the
  four input checks that the source makes first and the storage answers the query, the
  error thrown is ConflictError, nothing is written, and the error carries an active
  request of that conversation, the one requested last: the record of its id, status,
  two dog ids and \<open>requested_at\<close>, each equal to the column of that row.
\<close>

theorem no_double_active_request:
  assumes "r \<in> set (tbl_dog_match_requests w)"
    and "r_contact_id r = Some (String_of contactId)"
    and "r_status r \<in> set [''pending'', ''accepted'', ''awaiting_confirmation'']"
  shows "fst (createMatchRequest w contactId requesterDogId requestedDogId requesterUserId
             requestedUserId notes) \<noteq> Inr data
   \<and> (\<not> falsy contactId \<and> \<not> falsy requesterDogId \<and> \<not> falsy requestedDogId
        \<and> \<not> falsy requesterUserId \<and> requesterDogId \<noteq> requestedDogId
        \<and> failure w SelectActive = None
        \<longrightarrow> (\<exists>x. createMatchRequest w contactId requesterDogId requestedDogId requesterUserId
                    requestedUserId notes
                    = (Inl (ConflictError
                        \<lparr> a_id = r_id x,
                          a_status = r_status x,
                          a_requester_dog_id = r_requester_dog_id x,
                          a_requested_dog_id = r_requested_dog_id x,
                          a_requested_at = r_requested_at x \<rparr>), w)
                \<and> x \<in> set (tbl_dog_match_requests w)
                \<and> r_contact_id x = Some (String_of contactId)
                \<and> r_status x \<in> set [''pending'', ''accepted'', ''awaiting_confirmation'']
                \<and> (\<forall>y \<in> set (tbl_dog_match_requests w).
                      r_contact_id y = Some (String_of contactId)
                      \<and> r_status y \<in> set [''pending'', ''accepted'', ''awaiting_confirmation'']
                      \<longrightarrow> newer_eq (r_requested_at x) (r_requested_at y))))"
proof (intro conjI impI)
  from assms(3) have active: "r_status r \<in> set ACTIVE_STATUS_LIST"
    by (simp add: ACTIVE_STATUS_LIST_def)
  show "fst (createMatchRequest w contactId requesterDogId requestedDogId requesterUserId
             requestedUserId notes) \<noteq> Inr data"
  proof
    assume ok: "fst (createMatchRequest w contactId requesterDogId requestedDogId
        requesterUserId requestedUserId notes) = Inr data"
    from create_success_no_active [OF ok] obtain found
      where c: "\<not> falsy contactId"
        and get: "getActiveRequestForContact w contactId = Inr found"
        and none: "case found of None \<Rightarrow> True | Some a \<Rightarrow> a_status a \<notin> ACTIVE_REQUEST_STATUSES"
      by blast
    from get_active_no_failure [OF get c] have "failure w SelectActive = None" .
    from active_found [OF assms(1,2) active c this] obtain x
      where "getActiveRequestForContact w contactId = Inr (Some (active_columns x))"
        and "r_status x \<in> set ACTIVE_STATUS_LIST"
      by blast
    with get none show False
      by (auto simp: ACTIVE_REQUEST_STATUSES_def active_columns_def)
  qed
next
  assume h: "\<not> falsy contactId \<and> \<not> falsy requesterDogId \<and> \<not> falsy requestedDogId
        \<and> \<not> falsy requesterUserId \<and> requesterDogId \<noteq> requestedDogId
        \<and> failure w SelectActive = None"
  from assms(3) have active: "r_status r \<in> set ACTIVE_STATUS_LIST"
    by (simp add: ACTIVE_STATUS_LIST_def)
  from h have c: "\<not> falsy contactId" and f: "failure w SelectActive = None"
    by blast+
  from active_found [OF assms(1,2) active c f] obtain x
    where get: "getActiveRequestForContact w contactId = Inr (Some (active_columns x))"
      and x: "x \<in> set (tbl_dog_match_requests w)"
        "r_contact_id x = Some (String_of contactId)"
        "r_status x \<in> set ACTIVE_STATUS_LIST"
      and newest: "\<forall>y \<in> set (tbl_dog_match_requests w).
                 r_contact_id y = Some (String_of contactId)
                 \<and> r_status y \<in> set ACTIVE_STATUS_LIST
                 \<longrightarrow> newer_eq (r_requested_at x) (r_requested_at y)"
    by blast
  from x(3) have "a_status (active_columns x) \<in> ACTIVE_REQUEST_STATUSES"
    by (simp add: ACTIVE_REQUEST_STATUSES_def active_columns_def)
  with h get
  have "createMatchRequest w contactId requesterDogId requestedDogId requesterUserId
      requestedUserId notes = (Inl (ConflictError (active_columns x)), w)"
    by (simp add: createMatchRequest_def ConflictError_def)
  with x newest
  show "\<exists>x. createMatchRequest w contactId requesterDogId requestedDogId requesterUserId
                    requestedUserId notes
                    = (Inl (ConflictError
                        \<lparr> a_id = r_id x,
                          a_status = r_status x,
                          a_requester_dog_id = r_requester_dog_id x,
                          a_requested_dog_id = r_requested_dog_id x,
                          a_requested_at = r_requested_at x \<rparr>), w)
                \<and> x \<in> set (tbl_dog_match_requests w)
                \<and> r_contact_id x = Some (String_of contactId)
                \<and> r_status x \<in> set [''pending'', ''accepted'', ''awaiting_confirmation'']
                \<and> (\<forall>y \<in> set (tbl_dog_match_requests w).
                      r_contact_id y = Some (String_of contactId)
                      \<and> r_status y \<in> set [''pending'', ''accepted'', ''awaiting_confirmation'']
                      \<longrightarrow> newer_eq (r_requested_at x) (r_requested_at y))"
    unfolding ACTIVE_STATUS_LIST_def active_columns_def
    by (intro exI [of _ x]) simp
qed

theorem no_double_active_request_witness:
  "request_m1 \<in> set (tbl_dog_match_requests kennel)
   \<and> r_contact_id request_m1 = Some (String_of (Some ''c1''))
   \<and> r_status request_m1 \<in> set [''pending'', ''accepted'', ''awaiting_confirmation'']
   \<and> \<not> falsy (Some ''c1'') \<and> \<not> falsy (Some ''bella'') \<and> \<not> falsy (Some ''rex'')
   \<and> \<not> falsy (Some ''owner-f'') \<and> Some ''bella'' \<noteq> Some ''rex''
   \<and> failure kennel SelectActive = None
   \<and> createMatchRequest kennel (Some ''c1'') (Some ''bella'') (Some ''rex'') (Some ''owner-f'')
        None None
       = (Inl (ConflictError
            \<lparr> a_id = ''m1'',
              a_status = ''awaiting_confirmation'',
              a_requester_dog_id = Some ''rex'',
              a_requested_dog_id = Some ''bella'',
              a_requested_at = Some 10 \<rparr>), kennel)"
proof -
  have a: "request_m1 \<in> set (tbl_dog_match_requests kennel)"
    by (simp add: kennel_def)
  have b: "r_contact_id request_m1 = Some (String_of (Some ''c1''))"
    by (simp add: request_m1_def String_of_def)
  have c: "r_status request_m1 \<in> set [''pending'', ''accepted'', ''awaiting_confirmation'']"
    by (simp add: request_m1_def)
  have d: "\<not> falsy (Some ''c1'') \<and> \<not> falsy (Some ''bella'') \<and> \<not> falsy (Some ''rex'')
      \<and> \<not> falsy (Some ''owner-f'') \<and> Some ''bella'' \<noteq> Some ''rex''
      \<and> failure kennel SelectActive = None"
    by (simp add: falsy_def kennel_def no_failure_def)
  have only: "\<And>x. x \<in> set (tbl_dog_match_requests kennel)
      \<Longrightarrow> r_contact_id x = Some (String_of (Some ''c1'')) \<Longrightarrow> x = request_m1"
    by (auto simp: kennel_def request_m2_def String_of_def)
  from no_double_active_request [OF a b c, of "Some ''bella''" "Some ''rex''" "Some ''owner-f''"
      None None None] d
  obtain x where run: "createMatchRequest kennel (Some ''c1'') (Some ''bella'') (Some ''rex'')
        (Some ''owner-f'') None None
        = (Inl (ConflictError
            \<lparr> a_id = r_id x,
              a_status = r_status x,
              a_requester_dog_id = r_requester_dog_id x,
              a_requested_dog_id = r_requested_dog_id x,
              a_requested_at = r_requested_at x \<rparr>), kennel)"
    and "x \<in> set (tbl_dog_match_requests kennel)"
    and "r_contact_id x = Some (String_of (Some ''c1''))"
    by blast
  with only have "x = request_m1"
    by blast
  with run have "createMatchRequest kennel (Some ''c1'') (Some ''bella'') (Some ''rex'')
        (Some ''owner-f'') None None
        = (Inl (ConflictError
            \<lparr> a_id = ''m1'',
              a_status = ''awaiting_confirmation'',
              a_requester_dog_id = Some ''rex'',
              a_requested_dog_id = Some ''bella'',
              a_requested_at = Some 10 \<rparr>), kennel)"
    by (simp add: request_m1_def)
  with a b c d show ?thesis
    by blast
qed

text \<open>
  Claim C9 (a created request is pending). Whenever \<^verbatim>\<open>createMatchRequest\<close> returns, it has
  added one row to \<^verbatim>\<open>dog_match_requests\<close>, with the ids of the call, the status
  \<^verbatim>\<open>pending\<close> and \<open>requested_at\<close> equal to the current time, and returns that row. It does
  return when the arguments pass the input checks, the conversation has no active
  request, the other owner is given or found, and the storage does not fail. The status
  and the timestamp are not in the payload of the source: they are the defaults of the
  table as the specification states them.
\<close>

theorem create_persists_pending:
  "(fst (createMatchRequest w contactId requesterDogId requestedDogId requesterUserId
          requestedUserId notes) = Inr data \<longrightarrow>
      (\<exists>row. data = Some (MATCH_SELECT w row)
         \<and> tbl_dog_match_requests (snd (createMatchRequest w contactId requesterDogId
               requestedDogId requesterUserId requestedUserId notes))
             = tbl_dog_match_requests w @ [row]
         \<and> r_status row = ''pending''
         \<and> r_requested_at row = Some (clock w)
         \<and> r_contact_id row = contactId
         \<and> r_requester_dog_id row = requesterDogId
         \<and> r_requested_dog_id row = requestedDogId
         \<and> r_requester_user_id row = requesterUserId))
   \<and> (\<not> falsy contactId \<and> \<not> falsy requesterDogId \<and> \<not> falsy requestedDogId
        \<and> \<not> falsy requesterUserId \<and> requesterDogId \<noteq> requestedDogId
        \<and> getActiveRequestForContact w contactId = Inr None
        \<and> (if falsy requestedUserId then lookupDogOwnerId w requestedDogId
            else Inr requestedUserId) = Inr targetUserId
        \<and> \<not> falsy targetUserId
        \<and> failure w InsertRequest = None
        \<longrightarrow> (\<exists>row.
               fst (createMatchRequest w contactId requesterDogId requestedDogId
                 requesterUserId requestedUserId notes) = Inr (Some (MATCH_SELECT w row))
               \<and> row \<in> set (tbl_dog_match_requests (snd (createMatchRequest w contactId
                     requesterDogId requestedDogId requesterUserId requestedUserId notes)))
               \<and> r_status row = ''pending''
               \<and> r_requested_at row = Some (clock w)
               \<and> r_requested_user_id row = targetUserId))"
proof (intro conjI impI)
  assume ok: "fst (createMatchRequest w contactId requesterDogId requestedDogId
      requesterUserId requestedUserId notes) = Inr data"
  from create_success_row [OF ok] obtain t
    where "data = Some (MATCH_SELECT w (request_row w
             \<lparr> p_contact_id = contactId,
               p_requester_dog_id = requesterDogId,
               p_requested_dog_id = requestedDogId,
               p_requester_user_id = requesterUserId,
               p_requested_user_id = t,
               p_requester_notes = (if falsy notes then None else notes) \<rparr>))"
      "tbl_dog_match_requests (snd (createMatchRequest w contactId requesterDogId
                 requestedDogId requesterUserId requestedUserId notes))
               = tbl_dog_match_requests w @ [request_row w
             \<lparr> p_contact_id = contactId,
               p_requester_dog_id = requesterDogId,
               p_requested_dog_id = requestedDogId,
               p_requester_user_id = requesterUserId,
               p_requested_user_id = t,
               p_requester_notes = (if falsy notes then None else notes) \<rparr>]"
    by blast
  then show "\<exists>row. data = Some (MATCH_SELECT w row)
         \<and> tbl_dog_match_requests (snd (createMatchRequest w contactId requesterDogId
               requestedDogId requesterUserId requestedUserId notes))
             = tbl_dog_match_requests w @ [row]
         \<and> r_status row = ''pending''
         \<and> r_requested_at row = Some (clock w)
         \<and> r_contact_id row = contactId
         \<and> r_requester_dog_id row = requesterDogId
         \<and> r_requested_dog_id row = requestedDogId
         \<and> r_requester_user_id row = requesterUserId"
    by (intro exI [of _ "request_row w
             \<lparr> p_contact_id = contactId,
               p_requester_dog_id = requesterDogId,
               p_requested_dog_id = requestedDogId,
               p_requester_user_id = requesterUserId,
               p_requested_user_id = t,
               p_requester_notes = (if falsy notes then None else notes) \<rparr>"])
      (simp add: request_row_columns)
next
  assume h: "\<not> falsy contactId \<and> \<not> falsy requesterDogId \<and> \<not> falsy requestedDogId
        \<and> \<not> falsy requesterUserId \<and> requesterDogId \<noteq> requestedDogId
        \<and> getActiveRequestForContact w contactId = Inr None
        \<and> (if falsy requestedUserId then lookupDogOwnerId w requestedDogId
            else Inr requestedUserId) = Inr targetUserId
        \<and> \<not> falsy targetUserId
        \<and> failure w InsertRequest = None"
  let ?p = "\<lparr> p_contact_id = contactId,
              p_requester_dog_id = requesterDogId,
              p_requested_dog_id = requestedDogId,
              p_requester_user_id = requesterUserId,
              p_requested_user_id = targetUserId,
              p_requester_notes = (if falsy notes then None else notes) \<rparr>"
  from h
  have run: "createMatchRequest w contactId requesterDogId requestedDogId requesterUserId
      requestedUserId notes
      = (Inr (Some (MATCH_SELECT w (request_row w ?p))),
         w\<lparr> tbl_dog_match_requests := tbl_dog_match_requests w @ [request_row w ?p],
            serial := Suc (serial w) \<rparr>)"
    by (simp add: createMatchRequest_def insert_request_def Let_def)
  show "\<exists>row.
      fst (createMatchRequest w contactId requesterDogId requestedDogId
             requesterUserId requestedUserId notes) = Inr (Some (MATCH_SELECT w row))
      \<and> row \<in> set (tbl_dog_match_requests (snd (createMatchRequest w contactId
            requesterDogId requestedDogId requesterUserId requestedUserId notes)))
      \<and> r_status row = ''pending''
      \<and> r_requested_at row = Some (clock w)
      \<and> r_requested_user_id row = targetUserId"
    unfolding run
    by (intro exI [of _ "request_row w ?p"]) (simp add: request_row_columns)
qed

theorem create_persists_pending_witness:
  "\<not> falsy (Some ''c2'') \<and> \<not> falsy (Some ''bella'') \<and> \<not> falsy (Some ''rex'')
   \<and> \<not> falsy (Some ''owner-f'') \<and> Some ''bella'' \<noteq> Some ''rex''
   \<and> getActiveRequestForContact kennel (Some ''c2'') = Inr None
   \<and> lookupDogOwnerId kennel (Some ''rex'') = Inr (Some ''owner-m'')
   \<and> \<not> falsy (Some ''owner-m'')
   \<and> failure kennel InsertRequest = None
   \<and> fst (createMatchRequest kennel (Some ''c2'') (Some ''bella'') (Some ''rex'')
            (Some ''owner-f'') None (Some ''hello''))
       = Inr (Some (MATCH_SELECT kennel
           \<lparr> r_id = ''row-'', r_status = ''pending'', r_contact_id = Some ''c2'',
             r_requester_user_id = Some ''owner-f'', r_requested_user_id = Some ''owner-m'',
             r_requester_dog_id = Some ''bella'', r_requested_dog_id = Some ''rex'',
             r_requested_at = Some 100, r_accepted_at = None, r_declined_at = None,
             r_cancelled_at = None, r_awaiting_confirmation_at = None,
             r_completed_at = None, r_last_status_changed_at = None,
             r_requester_notes = Some ''hello'', r_responder_notes = None \<rparr>))
   \<and> clock kennel = 100"
proof -
  have valid: "\<not> falsy (Some ''c2'') \<and> \<not> falsy (Some ''bella'') \<and> \<not> falsy (Some ''rex'')
      \<and> \<not> falsy (Some ''owner-f'') \<and> Some ''bella'' \<noteq> Some ''rex''"
    by (simp add: falsy_def)
  have free: "getActiveRequestForContact kennel (Some ''c2'') = Inr None"
    by code_simp
  have owner: "lookupDogOwnerId kennel (Some ''rex'') = Inr (Some ''owner-m'')"
    by code_simp
  have target: "\<not> falsy (Some ''owner-m'')"
    by (simp add: falsy_def)
  have ins: "failure kennel InsertRequest = None"
    by (simp add: kennel_def no_failure_def)
  have run: "fst (createMatchRequest kennel (Some ''c2'') (Some ''bella'') (Some ''rex'')
            (Some ''owner-f'') None (Some ''hello''))
       = Inr (Some (MATCH_SELECT kennel
           \<lparr> r_id = ''row-'', r_status = ''pending'', r_contact_id = Some ''c2'',
             r_requester_user_id = Some ''owner-f'', r_requested_user_id = Some ''owner-m'',
             r_requester_dog_id = Some ''bella'', r_requested_dog_id = Some ''rex'',
             r_requested_at = Some 100, r_accepted_at = None, r_declined_at = None,
             r_cancelled_at = None, r_awaiting_confirmation_at = None,
             r_completed_at = None, r_last_status_changed_at = None,
             r_requester_notes = Some ''hello'', r_responder_notes = None \<rparr>))"
    by code_simp
  have now: "clock kennel = 100"
    by (simp add: kennel_def)
  have lookup: "(if falsy None then lookupDogOwnerId kennel (Some ''rex'') else Inr None)
      = Inr (Some ''owner-m'')"
    using owner by (simp add: falsy_def)
  show ?thesis
    using valid free owner target ins run now
      create_persists_pending [of kennel "Some ''c2''" "Some ''bella''" "Some ''rex''"
        "Some ''owner-f''" None "Some ''hello''" None "Some ''owner-m''"]
    by simp
qed

text \<open>
  Claim C4 (accept is valid only from \<^verbatim>\<open>pending\<close>) does not hold: \<^verbatim>\<open>acceptMatchRequest\<close>
  never reads the status of the match. For the declined match \<open>m2\<close> it returns, with
  the status set to \<^verbatim>\<open>awaiting_confirmation\<close> and the three timestamps stamped.
\<close>

theorem accept_from_declined_counterexample:
  "select_match kennel (Some ''m2'') = (Some request_m2, None)
   \<and> r_status request_m2 = ''declined''
   \<and> fst (acceptMatchRequest kennel (Some ''m2''))
       = Inr (Some (request_m2\<lparr> r_status := ''awaiting_confirmation'',
                       r_accepted_at := Some 100,
                       r_awaiting_confirmation_at := Some 100,
                       r_last_status_changed_at := Some 100 \<rparr>))"
  by code_simp

text \<open>
  Claim C4 as amended. \<^verbatim>\<open>acceptMatchRequest\<close> does not look at the current status of the
  match. Whenever it returns, the match with that id now has the status
  \<^verbatim>\<open>awaiting_confirmation\<close> and \<open>accepted_at\<close>, \<open>awaiting_confirmation_at\<close> and
  \<open>last_status_changed_at\<close> all equal to the one timestamp taken at the call; the other
  columns and the other rows are as before. It returns whenever the id is given, the
  storage does not fail and exactly one row has that id, whatever the status of the row.
\<close>

theorem accept_stamps:
  "(fst (acceptMatchRequest w matchId) = Inr data \<longrightarrow>
      (\<exists>r. r \<in> set (tbl_dog_match_requests w) \<and> r_id r = String_of matchId
         \<and> data = Some (r\<lparr> r_status := ''awaiting_confirmation'',
                            r_accepted_at := Some (clock w),
                            r_awaiting_confirmation_at := Some (clock w),
                            r_last_status_changed_at := Some (clock w) \<rparr>)
         \<and> tbl_dog_match_requests (snd (acceptMatchRequest w matchId))
             = map (\<lambda>x. if r_id x = String_of matchId
                         then x\<lparr> r_status := ''awaiting_confirmation'',
                                 r_accepted_at := Some (clock w),
                                 r_awaiting_confirmation_at := Some (clock w),
                                 r_last_status_changed_at := Some (clock w) \<rparr>
                         else x)
                 (tbl_dog_match_requests w)))
   \<and> (\<not> falsy matchId \<and> failure w UpdateRequest = None
        \<and> filter (\<lambda>x. r_id x = String_of matchId) (tbl_dog_match_requests w) = [r]
        \<longrightarrow> fst (acceptMatchRequest w matchId)
              = Inr (Some (r\<lparr> r_status := ''awaiting_confirmation'',
                               r_accepted_at := Some (clock w),
                               r_awaiting_confirmation_at := Some (clock w),
                               r_last_status_changed_at := Some (clock w) \<rparr>)))"
proof (intro conjI impI)
  assume ok: "fst (acceptMatchRequest w matchId) = Inr data"
  then obtain w' where upd: "update_request w (accept_patch (clock w)) matchId
      = ((data, None), w')" and w': "snd (acceptMatchRequest w matchId) = w'"
    unfolding acceptMatchRequest_def
    by (auto split: if_splits prod.splits option.splits)
  from update_request_success [OF upd] obtain r
    where one: "filter (\<lambda>x. r_id x = String_of matchId) (tbl_dog_match_requests w) = [r]"
      and data: "data = Some (patched (accept_patch (clock w)) r)"
      and new: "w' = w\<lparr> tbl_dog_match_requests :=
                    map (\<lambda>x. if r_id x = String_of matchId
                              then patched (accept_patch (clock w)) x else x)
                      (tbl_dog_match_requests w) \<rparr>"
    by blast
  from filter_single_member [OF one]
  have "r \<in> set (tbl_dog_match_requests w)" and "r_id r = String_of matchId"
    by simp_all
  with data new w'
  show "\<exists>r. r \<in> set (tbl_dog_match_requests w) \<and> r_id r = String_of matchId
         \<and> data = Some (r\<lparr> r_status := ''awaiting_confirmation'',
                            r_accepted_at := Some (clock w),
                            r_awaiting_confirmation_at := Some (clock w),
                            r_last_status_changed_at := Some (clock w) \<rparr>)
         \<and> tbl_dog_match_requests (snd (acceptMatchRequest w matchId))
             = map (\<lambda>x. if r_id x = String_of matchId
                         then x\<lparr> r_status := ''awaiting_confirmation'',
                                 r_accepted_at := Some (clock w),
                                 r_awaiting_confirmation_at := Some (clock w),
                                 r_last_status_changed_at := Some (clock w) \<rparr>
                         else x)
                 (tbl_dog_match_requests w)"
    by (intro exI [of _ r]) (simp add: accept_patch_row)
next
  assume "\<not> falsy matchId \<and> failure w UpdateRequest = None
        \<and> filter (\<lambda>x. r_id x = String_of matchId) (tbl_dog_match_requests w) = [r]"
  then show "fst (acceptMatchRequest w matchId)
              = Inr (Some (r\<lparr> r_status := ''awaiting_confirmation'',
                               r_accepted_at := Some (clock w),
                               r_awaiting_confirmation_at := Some (clock w),
                               r_last_status_changed_at := Some (clock w) \<rparr>))"
    by (simp add: acceptMatchRequest_def update_request_def accept_patch_row)
qed

theorem accept_stamps_witness:
  "\<not> falsy (Some ''m2'') \<and> failure kennel UpdateRequest = None
   \<and> filter (\<lambda>x. r_id x = String_of (Some ''m2'')) (tbl_dog_match_requests kennel)
       = [request_m2]
   \<and> r_status request_m2 = ''declined''
   \<and> clock kennel = 100
   \<and> fst (acceptMatchRequest kennel (Some ''m2''))
       = Inr (Some (request_m2\<lparr> r_status := ''awaiting_confirmation'',
                       r_accepted_at := Some 100,
                       r_awaiting_confirmation_at := Some 100,
                       r_last_status_changed_at := Some 100 \<rparr>))"
proof -
  have a: "\<not> falsy (Some ''m2'') \<and> failure kennel UpdateRequest = None"
    by (simp add: falsy_def kennel_def no_failure_def)
  have b: "filter (\<lambda>x. r_id x = String_of (Some ''m2'')) (tbl_dog_match_requests kennel)
       = [request_m2]"
    by (simp add: kennel_def String_of_def request_m1_def request_m2_def)
  have c: "r_status request_m2 = ''declined''"
    by (simp add: request_m2_def)
  have d: "clock kennel = 100"
    by (simp add: kennel_def)
  show ?thesis
    using a b c d accept_stamps [of kennel "Some ''m2''" None request_m2]
    by simp
qed

text \<open>
  Claim C8 (the generic transition). \<^verbatim>\<open>updateMatchStatus\<close> never returns for a status
  outside \<^verbatim>\<open>STATUS_SET\<close>, and throws UnsupportedStatus for it once the match id is
  given. Whenever it returns, the match with that id has been patched with the status
  and the timestamp of the call in the column paired with the status, and nothing else:
  \<open>declined_at\<close> for \<^verbatim>\<open>declined\<close>, \<open>cancelled_at\<close> for \<^verbatim>\<open>cancelled\<close>,
  \<open>awaiting_confirmation_at\<close> for \<^verbatim>\<open>awaiting_confirmation\<close>, \<open>completed_at\<close> for both
  \<^verbatim>\<open>completed_success\<close> and \<^verbatim>\<open>completed_failed\<close> (and \<open>accepted_at\<close> for \<^verbatim>\<open>accepted\<close>, no
  timestamp for \<^verbatim>\<open>pending\<close>). It returns whenever the id is given, the status is in the
  set, the storage does not fail and exactly one row has that id. The set is the seven
  statuses of the data model, and the patch built for a status has the keys
  \<^verbatim>\<open>status\<close> and that one column and no other.
\<close>

theorem status_stamps:
  "(status \<notin> STATUS_SET \<longrightarrow>
      fst (updateMatchStatus w matchId status) \<noteq> Inr data
      \<and> (\<not> falsy matchId \<longrightarrow> updateMatchStatus w matchId status = (Inl UnsupportedStatus, w)))
   \<and> (fst (updateMatchStatus w matchId status) = Inr data \<longrightarrow>
        (\<exists>r. r \<in> set (tbl_dog_match_requests w) \<and> r_id r = String_of matchId
           \<and> data = Some (patched (status_patch (clock w) status) r)
           \<and> tbl_dog_match_requests (snd (updateMatchStatus w matchId status))
               = map (\<lambda>x. if r_id x = String_of matchId
                           then patched (status_patch (clock w) status) x else x)
                   (tbl_dog_match_requests w)))
   \<and> (\<not> falsy matchId \<and> status \<in> STATUS_SET \<and> failure w UpdateRequest = None
        \<and> filter (\<lambda>x. r_id x = String_of matchId) (tbl_dog_match_requests w) = [r]
        \<longrightarrow> fst (updateMatchStatus w matchId status)
              = Inr (Some (patched (status_patch (clock w) status) r)))
   \<and> patched (status_patch now ''declined'') x
       = x\<lparr> r_status := ''declined'', r_declined_at := Some now \<rparr>
   \<and> patched (status_patch now ''cancelled'') x
       = x\<lparr> r_status := ''cancelled'', r_cancelled_at := Some now \<rparr>
   \<and> patched (status_patch now ''awaiting_confirmation'') x
       = x\<lparr> r_status := ''awaiting_confirmation'', r_awaiting_confirmation_at := Some now \<rparr>
   \<and> patched (status_patch now ''completed_success'') x
       = x\<lparr> r_status := ''completed_success'', r_completed_at := Some now \<rparr>
   \<and> patched (status_patch now ''completed_failed'') x
       = x\<lparr> r_status := ''completed_failed'', r_completed_at := Some now \<rparr>
   \<and> patched (status_patch now ''accepted'') x
       = x\<lparr> r_status := ''accepted'', r_accepted_at := Some now \<rparr>
   \<and> patched (status_patch now ''pending'') x = x\<lparr> r_status := ''pending'' \<rparr>
   \<and> STATUS_SET = set [''pending'', ''accepted'', ''declined'', ''cancelled'',
         ''awaiting_confirmation'', ''completed_success'', ''completed_failed'']
   \<and> dom (status_patch now ''declined'') = {''status'', ''declined_at''}
   \<and> dom (status_patch now ''cancelled'') = {''status'', ''cancelled_at''}
   \<and> dom (status_patch now ''awaiting_confirmation'')
       = {''status'', ''awaiting_confirmation_at''}
   \<and> dom (status_patch now ''completed_success'') = {''status'', ''completed_at''}
   \<and> dom (status_patch now ''completed_failed'') = {''status'', ''completed_at''}
   \<and> dom (status_patch now ''accepted'') = {''status'', ''accepted_at''}
   \<and> dom (status_patch now ''pending'') = {''status''}"
proof (intro conjI impI)
  assume bad: "status \<notin> STATUS_SET"
  then show "fst (updateMatchStatus w matchId status) \<noteq> Inr data"
    by (simp add: updateMatchStatus_def)
  assume "\<not> falsy matchId"
  with bad show "updateMatchStatus w matchId status = (Inl UnsupportedStatus, w)"
    by (simp add: updateMatchStatus_def UnsupportedStatus_def)
next
  assume ok: "fst (updateMatchStatus w matchId status) = Inr data"
  then obtain w' where upd: "update_request w (status_patch (clock w) status) matchId
      = ((data, None), w')" and w': "snd (updateMatchStatus w matchId status) = w'"
    unfolding updateMatchStatus_def
    by (auto split: if_splits prod.splits option.splits)
  from update_request_success [OF upd] obtain r
    where one: "filter (\<lambda>x. r_id x = String_of matchId) (tbl_dog_match_requests w) = [r]"
      and data: "data = Some (patched (status_patch (clock w) status) r)"
      and new: "w' = w\<lparr> tbl_dog_match_requests :=
                    map (\<lambda>x. if r_id x = String_of matchId
                              then patched (status_patch (clock w) status) x else x)
                      (tbl_dog_match_requests w) \<rparr>"
    by blast
  from filter_single_member [OF one]
  have "r \<in> set (tbl_dog_match_requests w)" and "r_id r = String_of matchId"
    by simp_all
  with data new w'
  show "\<exists>r. r \<in> set (tbl_dog_match_requests w) \<and> r_id r = String_of matchId
           \<and> data = Some (patched (status_patch (clock w) status) r)
           \<and> tbl_dog_match_requests (snd (updateMatchStatus w matchId status))
               = map (\<lambda>x. if r_id x = String_of matchId
                           then patched (status_patch (clock w) status) x else x)
                   (tbl_dog_match_requests w)"
    by (intro exI [of _ r]) simp
next
  assume "\<not> falsy matchId \<and> status \<in> STATUS_SET \<and> failure w UpdateRequest = None
        \<and> filter (\<lambda>x. r_id x = String_of matchId) (tbl_dog_match_requests w) = [r]"
  then show "fst (updateMatchStatus w matchId status)
              = Inr (Some (patched (status_patch (clock w) status) r))"
    by (simp add: updateMatchStatus_def update_request_def)
qed (simp_all add: status_patch_row status_patch_keys STATUS_SET_def)

theorem status_stamps_witness:
  "''done'' \<notin> STATUS_SET \<and> \<not> falsy (Some ''m1'')
   \<and> updateMatchStatus kennel (Some ''m1'') ''done'' = (Inl UnsupportedStatus, kennel)
   \<and> ''completed_success'' \<in> STATUS_SET \<and> failure kennel UpdateRequest = None
   \<and> filter (\<lambda>x. r_id x = String_of (Some ''m1'')) (tbl_dog_match_requests kennel)
       = [request_m1]
   \<and> clock kennel = 100
   \<and> fst (updateMatchStatus kennel (Some ''m1'') ''completed_success'')
       = Inr (Some (request_m1\<lparr> r_status := ''completed_success'',
                       r_completed_at := Some 100 \<rparr>))"
proof -
  have a: "''done'' \<notin> STATUS_SET \<and> \<not> falsy (Some ''m1'')
      \<and> ''completed_success'' \<in> STATUS_SET \<and> failure kennel UpdateRequest = None"
    by (simp add: STATUS_SET_def falsy_def kennel_def no_failure_def)
  have b: "filter (\<lambda>x. r_id x = String_of (Some ''m1'')) (tbl_dog_match_requests kennel)
       = [request_m1]"
    by (simp add: kennel_def String_of_def request_m1_def request_m2_def)
  have c: "clock kennel = 100"
    by (simp add: kennel_def)
  show ?thesis
    using a b c
      status_stamps [of "''done''" kennel "Some ''m1''" None request_m1 100 request_m1]
      status_stamps [of "''completed_success''" kennel "Some ''m1''" None request_m1 100
        request_m1]
    by simp
qed

text \<open>
  Claim C6 (the viewer is expected to produce an outcome exactly when the status is
  \<^verbatim>\<open>awaiting_confirmation\<close>) does not hold: \<^verbatim>\<open>mapMatchRecord\<close> also asks that the gender of
  the viewer's dog be \<^verbatim>\<open>female\<close> or \<^verbatim>\<open>male\<close>. For a match that awaits confirmation and a
  viewer whose dog has no gender recorded the flag is false.
\<close>

theorem awaiting_outcome_counterexample:
  "r_status (MATCH_SELECT (kennel\<lparr> tbl_dogs := [bella\<lparr> d_gender := None \<rparr>, rex] \<rparr>)
      request_m1) = ''awaiting_confirmation''
   \<and> map_option v_awaitingMyOutcome
       (mapMatchRecord
          (Some (MATCH_SELECT (kennel\<lparr> tbl_dogs := [bella\<lparr> d_gender := None \<rparr>, rex] \<rparr>)
             request_m1))
          (Some ''owner-f'')) = Some False"
  by code_simp

text \<open>
  Claim C6 as amended. In the view model of a row for a viewer, the flag
  \<^verbatim>\<open>awaitingMyOutcome\<close> is true exactly when the status of the row is
  \<^verbatim>\<open>awaiting_confirmation\<close> and the gender of the viewer's own dog, in lower case, is
  \<^verbatim>\<open>female\<close> or \<^verbatim>\<open>male\<close>. The viewer's own dog is the requester's dog when the viewer is
  the requester and the requested dog otherwise, and \<^verbatim>\<open>isMaleDogOwner\<close> says that this
  gender is \<^verbatim>\<open>male\<close>.
\<close>

theorem awaiting_outcome_flag:
  assumes "mapMatchRecord (Some row) userId = Some view"
    and "myDogGender = toLowerCase
          (case v_myDog view of
             None \<Rightarrow> []
           | Some d \<Rightarrow> (case d_gender d of None \<Rightarrow> [] | Some g \<Rightarrow> g))"
  shows "v_awaitingMyOutcome view
           = (r_status row = ''awaiting_confirmation''
              \<and> (myDogGender = ''female'' \<or> myDogGender = ''male''))
   \<and> v_myDog view = (if v_iAmRequester view then requester_dog row else requested_dog row)
   \<and> v_iAmRequester view
       = (\<not> falsy userId \<and> String_of (r_requester_user_id row) = String_of userId)
   \<and> v_isMaleDogOwner view = (myDogGender = ''male'')"
  using assms
  unfolding mapMatchRecord_def Let_def
  by (cases "falsy userId";
      cases "String_of (r_requester_user_id row) = String_of userId";
      auto)

theorem awaiting_outcome_flag_witness:
  "map_option v_awaitingMyOutcome
       (mapMatchRecord (Some (MATCH_SELECT kennel request_m1)) (Some ''owner-f'')) = Some True
   \<and> map_option v_myDog
       (mapMatchRecord (Some (MATCH_SELECT kennel request_m1)) (Some ''owner-f''))
       = Some (Some bella)
   \<and> r_status (MATCH_SELECT kennel request_m1) = ''awaiting_confirmation''
   \<and> toLowerCase ''female'' = ''female''"
proof -
  obtain view
    where view: "mapMatchRecord (Some (MATCH_SELECT kennel request_m1)) (Some ''owner-f'')
      = Some view"
    by (auto simp: mapMatchRecord_def Let_def)
  have dog: "map_option v_myDog
       (mapMatchRecord (Some (MATCH_SELECT kennel request_m1)) (Some ''owner-f''))
       = Some (Some bella)"
    by code_simp
  have st: "r_status (MATCH_SELECT kennel request_m1) = ''awaiting_confirmation''"
    by code_simp
  have low: "toLowerCase ''female'' = ''female''"
    by code_simp
  from dog view have my: "v_myDog view = Some bella"
    by simp
  have g: "''female'' = toLowerCase
          (case v_myDog view of
             None \<Rightarrow> []
           | Some d \<Rightarrow> (case d_gender d of None \<Rightarrow> [] | Some g \<Rightarrow> g))"
    using my low by (simp add: bella_def)
  from awaiting_outcome_flag [OF view g] st
  have "v_awaitingMyOutcome view"
    by simp
  with view dog st low show ?thesis
    by simp
qed

end
